theory Spec2Isabelle
  imports Complex_Main "HOL-Library.Sublist"
begin

section \<open>Python values, errors and the file system\<close>

text \<open>
  The module \<open>geogee2.py\<close> holds one helper, \<open>shp_to_geojson\<close>, and the methods
  \<open>add_geojson\<close>, \<open>add_shapefile\<close>, \<open>add_ee_layer\<close> and \<open>ee_tile_layer\<close> of the class
  \<open>Map\<close>. Everything they compute on is a dynamically typed Python object; the objects that
  occur (paths, JSON-like data, style mappings, visualization parameters) are values of
  \<open>pyval\<close>. A Python \<open>dict\<close> is an association list in insertion order; tuples and lists
  are different objects, as they are in Python, where \<open>(1, 2) == [1, 2]\<close> is false.
\<close>

datatype pyval =
    PNone
  | PBool bool
  | PInt int
  | PFloat real
  | PStr string
  | PTuple "pyval list"
  | PList "pyval list"
  | PDict "(string \<times> pyval) list"

text \<open>
  The exceptions that leave the module. The first three are raised by the module's own
  \<open>raise\<close> statements (\<open>FileNotFoundError\<close> by the operating system too, and \<open>TypeError\<close> by
  \<open>os.path.abspath\<close> on an argument that is not a path); the others come from the
  collaborators. None is caught.
\<close>

datatype error =
    FileNotFoundError string
  | TypeError string
  | AttributeError string
  | FileExistsError
  | NotADirectoryError
  | IsADirectoryError
  | ShapefileException string
  | JSONDecodeError
  | TraitError string

subsection \<open>JSON\<close>

text \<open>
  A JSON document. \<open>json.dump\<close> encodes a Python value as the text of a document and
  \<open>json.load\<close> decodes such a text; the text is kept here as the document it denotes, so
  that equal documents are equal texts. The encoder writes a tuple as it writes a list, as
  an array, and the decoder reads every array as a list. Floats are finite and are read
  back as written.
\<close>

datatype json =
    JNull
  | JBool bool
  | JInt int
  | JFloat real
  | JString string
  | JArray "json list"
  | JObject "(string \<times> json) list"

primrec to_json :: "pyval \<Rightarrow> json" where
  "to_json PNone = JNull"
| "to_json (PBool b) = JBool b"
| "to_json (PInt i) = JInt i"
| "to_json (PFloat r) = JFloat r"
| "to_json (PStr s) = JString s"
| "to_json (PTuple xs) = JArray (map to_json xs)"
| "to_json (PList xs) = JArray (map to_json xs)"
| "to_json (PDict kvs) = JObject (map (map_prod id to_json) kvs)"

primrec of_json :: "json \<Rightarrow> pyval" where
  "of_json JNull = PNone"
| "of_json (JBool b) = PBool b"
| "of_json (JInt i) = PInt i"
| "of_json (JFloat r) = PFloat r"
| "of_json (JString s) = PStr s"
| "of_json (JArray xs) = PList (map of_json xs)"
| "of_json (JObject kvs) = PDict (map (map_prod id of_json) kvs)"

text \<open>
  What a file holds. A file whose text is a JSON document is held as that document;
  \<open>Text\<close> is a text that is not JSON, on which \<open>json.load\<close> raises \<open>JSONDecodeError\<close>.
\<close>

datatype content = Text string | Document json

definition json_dump :: "pyval \<Rightarrow> content" where
  "json_dump v = Document (to_json v)"

definition json_load :: "content \<Rightarrow> pyval option" where
  "json_load c = (case c of Document j \<Rightarrow> Some (of_json j) | Text s \<Rightarrow> None)"

text \<open>
  A value with every tuple replaced by the list of its items, and whether a value holds a
  tuple anywhere.
\<close>

primrec tuples_to_lists :: "pyval \<Rightarrow> pyval" where
  "tuples_to_lists PNone = PNone"
| "tuples_to_lists (PBool b) = PBool b"
| "tuples_to_lists (PInt i) = PInt i"
| "tuples_to_lists (PFloat r) = PFloat r"
| "tuples_to_lists (PStr s) = PStr s"
| "tuples_to_lists (PTuple xs) = PList (map tuples_to_lists xs)"
| "tuples_to_lists (PList xs) = PList (map tuples_to_lists xs)"
| "tuples_to_lists (PDict kvs) = PDict (map (map_prod id tuples_to_lists) kvs)"

primrec has_tuple :: "pyval \<Rightarrow> bool" where
  "has_tuple PNone = False"
| "has_tuple (PBool b) = False"
| "has_tuple (PInt i) = False"
| "has_tuple (PFloat r) = False"
| "has_tuple (PStr s) = False"
| "has_tuple (PTuple xs) = True"
| "has_tuple (PList xs) = list_ex id (map has_tuple xs)"
| "has_tuple (PDict kvs) = list_ex snd (map (map_prod id has_tuple) kvs)"

subsection \<open>The file system\<close>

text \<open>
  The file system: regular files with what they hold, and directories, under absolute
  normalised paths. A path is the list of its components from the root, so \<open>/a/b\<close> is
  \<open>[''a'', ''b'']\<close> and the root is \<open>[]\<close>. There are no links, permissions or quotas.
\<close>

type_synonym apath = "string list"

datatype node = Dir | File content

type_synonym filesystem = "apath \<Rightarrow> node option"

text \<open>
  A file system is valid when the root is a directory and every entry lies in a directory.
\<close>

definition valid_fs :: "filesystem \<Rightarrow> bool" where
  "valid_fs fs \<longleftrightarrow>
     fs [] = Some Dir \<and> (\<forall>p. p \<noteq> [] \<and> fs p \<noteq> None \<longrightarrow> fs (butlast p) = Some Dir)"

subsection \<open>\<open>os.path\<close> on POSIX\<close>

text \<open>\<open>str.split("/")\<close>.\<close>

fun split_sep :: "string \<Rightarrow> string list" where
  "split_sep [] = [[]]"
| "split_sep (c # cs) =
     (if c = CHR ''/'' then [] # split_sep cs
      else (case split_sep cs of [] \<Rightarrow> [[c]] | x # xs \<Rightarrow> (c # x) # xs))"

definition isabs :: "string \<Rightarrow> bool" where
  "isabs p \<longleftrightarrow> (case p of [] \<Rightarrow> False | c # _ \<Rightarrow> c = CHR ''/'')"

text \<open>
  The loop of \<open>posixpath.normpath\<close> over the components of a path that starts with a slash:
  empty components and \<open>.\<close> are dropped, \<open>..\<close> removes the component before it (and is
  dropped at the root), every other component is kept.
\<close>

fun norm_comps :: "apath \<Rightarrow> string list \<Rightarrow> apath" where
  "norm_comps new_comps [] = new_comps"
| "norm_comps new_comps (c # cs) =
     (if c = [] \<or> c = ''.'' then norm_comps new_comps cs
      else if c \<noteq> ''..'' \<or> (new_comps \<noteq> [] \<and> last new_comps = ''..'')
        then norm_comps (new_comps @ [c]) cs
      else if new_comps \<noteq> [] then norm_comps (butlast new_comps) cs
      else norm_comps new_comps cs)"

text \<open>
  \<open>os.path.abspath\<close>: a path that is not absolute is joined to the working directory,
  then the result is normalised. The working directory is an absolute normalised path.
\<close>

definition abspath :: "apath \<Rightarrow> string \<Rightarrow> apath" where
  "abspath wd p = norm_comps [] ((if isabs p then [] else wd) @ split_sep p)"

text \<open>\<open>os.path.dirname\<close> of an absolute normalised path; the root is its own parent.\<close>

definition dirname :: "apath \<Rightarrow> apath" where
  "dirname p = butlast p"

text \<open>
  \<open>os.path.exists\<close>, \<open>os.path.isdir\<close> and \<open>os.path.isfile\<close> of an absolute normalised
  path. In a valid file system every entry is reachable from the root, so each is a lookup;
  a directory exists as much as a regular file does.
\<close>

definition path_exists :: "filesystem \<Rightarrow> apath \<Rightarrow> bool" where
  "path_exists fs p \<longleftrightarrow> fs p \<noteq> None"

definition isdir :: "filesystem \<Rightarrow> apath \<Rightarrow> bool" where
  "isdir fs p \<longleftrightarrow> fs p = Some Dir"

definition isfile :: "filesystem \<Rightarrow> apath \<Rightarrow> bool" where
  "isfile fs p \<longleftrightarrow> (case fs p of Some (File _) \<Rightarrow> True | _ \<Rightarrow> False)"

subsection \<open>\<open>os.mkdir\<close>, \<open>os.makedirs\<close> and writing a text file\<close>

text \<open>
  Every operation returns its outcome and the file system it leaves, since a raised
  exception does not undo what was done before it.
\<close>

definition mkdir :: "filesystem \<Rightarrow> apath \<Rightarrow> (error + unit) \<times> filesystem" where
  "mkdir fs p =
     (if fs p \<noteq> None then (Inl FileExistsError, fs)
      else (case fs (butlast p) of
              None \<Rightarrow> (Inl (FileNotFoundError ''No such file or directory''), fs)
            | Some (File _) \<Rightarrow> (Inl NotADirectoryError, fs)
            | Some Dir \<Rightarrow> (Inr (), fs(p \<mapsto> Dir))))"

text \<open>
  \<open>os.makedirs(name, exist_ok=True)\<close>:
  \<^verbatim>\<open>
  head, tail = path.split(name)
  if head and tail and not path.exists(head):
      try:
          makedirs(head, exist_ok=exist_ok)
      except FileExistsError:
          pass
      if tail == curdir:
          return
  try:
      mkdir(name, mode)
  except OSError:
      if not exist_ok or not path.isdir(name):
          raise
  \<close>
  The last \<open>try\<close> block is \<open>mkdir_exist_ok\<close>. The head of a path is never empty here,
  and the tail is empty at the root only.
\<close>

definition mkdir_exist_ok :: "filesystem \<Rightarrow> apath \<Rightarrow> (error + unit) \<times> filesystem" where
  "mkdir_exist_ok fs name =
     (case mkdir fs name of
        (Inr u, fs1) \<Rightarrow> (Inr (), fs1)
      | (Inl e, fs1) \<Rightarrow> (if isdir fs name then (Inr (), fs) else (Inl e, fs)))"

function makedirs :: "filesystem \<Rightarrow> apath \<Rightarrow> (error + unit) \<times> filesystem" where
  "makedirs fs name =
     (if name \<noteq> [] \<and> \<not> path_exists fs (butlast name) then
        (case makedirs fs (butlast name) of
           (r, fs1) \<Rightarrow>
             (if r \<noteq> Inr () \<and> r \<noteq> Inl FileExistsError then (r, fs1)
              else if last name = ''.'' then (Inr (), fs1)
              else mkdir_exist_ok fs1 name))
      else mkdir_exist_ok fs name)"
  by pat_completeness auto
termination
  by (relation "measure (\<lambda>(fs, name). length name)") auto

declare makedirs.simps [simp del]

text \<open>
  \<open>with open(p, "w") as f: f.write(s)\<close>: a directory cannot be opened for writing; an
  existing file is truncated; a new file needs its directory.
\<close>

definition write_text :: "filesystem \<Rightarrow> apath \<Rightarrow> content \<Rightarrow> (error + unit) \<times> filesystem" where
  "write_text fs p s =
     (case fs p of
        Some Dir \<Rightarrow> (Inl IsADirectoryError, fs)
      | Some (File old) \<Rightarrow> (Inr (), fs(p \<mapsto> File s))
      | None \<Rightarrow>
          (case fs (butlast p) of
             None \<Rightarrow> (Inl (FileNotFoundError ''No such file or directory''), fs)
           | Some (File _) \<Rightarrow> (Inl NotADirectoryError, fs)
           | Some Dir \<Rightarrow> (Inr (), fs(p \<mapsto> File s))))"

section \<open>The world and the collaborators\<close>

text \<open>
  What a call can read and change: the working directory, the file system, the state of
  the random generator behind \<open>random_string\<close>, and the store of the mutable \<open>dict\<close>
  objects that visualization parameters are passed by reference to.
\<close>

record world =
  cwd :: apath
  files :: filesystem
  rng :: nat
  dicts :: "nat \<Rightarrow> pyval"

text \<open>
  Earth Engine objects are client-side descriptions of server-side values. The five
  classes that \<open>ee_tile_layer\<close> tests for are pairwise unrelated by inheritance;
  \<open>ImageCollection.mosaic()\<close> builds an \<open>ee.Image\<close>. Any other Python object is \<open>NotEE\<close>.
\<close>

datatype ee_type = EE_Image | EE_ImageCollection | EE_Feature | EE_FeatureCollection | EE_Geometry

datatype ee_object =
    Image string
  | ImageCollection string
  | Feature string
  | FeatureCollection string
  | Geometry string
  | Mosaic ee_object
  | NotEE pyval

fun type_of :: "ee_object \<Rightarrow> ee_type option" where
  "type_of (Image a) = Some EE_Image"
| "type_of (Mosaic c) = Some EE_Image"
| "type_of (ImageCollection a) = Some EE_ImageCollection"
| "type_of (Feature a) = Some EE_Feature"
| "type_of (FeatureCollection a) = Some EE_FeatureCollection"
| "type_of (Geometry a) = Some EE_Geometry"
| "type_of (NotEE v) = None"

definition isinstance :: "ee_object \<Rightarrow> ee_type list \<Rightarrow> bool" where
  "isinstance ob ts \<longleftrightarrow> (case type_of ob of None \<Rightarrow> False | Some t \<Rightarrow> t \<in> set ts)"

definition mosaic :: "ee_object \<Rightarrow> ee_object" where
  "mosaic ob = Mosaic ob"

record tile_fetcher =
  url_format :: string

record map_id =
  mapid :: string
  tile_fetcher :: tile_fetcher

text \<open>
  The collaborators, none of which is code of this module:
  \<^item> \<open>shapefile_Reader fs p\<close> is \<open>shapefile.Reader(p).__geo_interface__\<close>: the collection read
    from the data set at \<open>p\<close>, or the exception the parser raises, whichever it is;
  \<^item> \<open>random_string\<close> is \<open>utils.random_string()\<close>, from the generator's state to the string and
    the next state;
  \<^item> \<open>getMapId ob vis\<close> is \<open>ob.getMapId(vis)\<close> of the remote service, which reads \<open>vis\<close>.
\<close>

record ext =
  shapefile_Reader :: "filesystem \<Rightarrow> apath \<Rightarrow> error + pyval"
  random_string :: "nat \<Rightarrow> string \<times> nat"
  getMapId :: "ee_object \<Rightarrow> pyval \<Rightarrow> map_id"

section \<open>\<open>shp_to_geojson\<close>\<close>

text \<open>
  \<open>os.path.abspath\<close> of an argument: a string is a path, and anything else is refused with
  \<open>TypeError\<close>.
\<close>

definition py_abspath :: "apath \<Rightarrow> pyval \<Rightarrow> error + apath" where
  "py_abspath wd v =
     (case v of
        PStr p \<Rightarrow> Inr (abspath wd p)
      | _ \<Rightarrow> Inl (TypeError ''expected str, bytes or os.PathLike object''))"

definition shp_to_geojson ::
  "ext \<Rightarrow> world \<Rightarrow> pyval \<Rightarrow> pyval \<Rightarrow> (error + pyval) \<times> world" where
  "shp_to_geojson X w in_shp out_geojson =
     (case py_abspath (cwd w) in_shp of
        Inl e \<Rightarrow> (Inl e, w)
      | Inr in_shp1 \<Rightarrow>
          if \<not> path_exists (files w) in_shp1
          then (Inl (FileNotFoundError ''The provided shapefile could not be found.''), w)
          else
            (case shapefile_Reader X (files w) in_shp1 of
               Inl e \<Rightarrow> (Inl e, w)
             | Inr geojson \<Rightarrow>
                 if out_geojson = PNone then (Inr geojson, w)
                 else
                   (case py_abspath (cwd w) out_geojson of
                      Inl e \<Rightarrow> (Inl e, w)
                    | Inr out1 \<Rightarrow>
                        (case makedirs (files w) (dirname out1) of
                           (Inl e, fs1) \<Rightarrow> (Inl e, w\<lparr>files := fs1\<rparr>)
                         | (Inr u, fs1) \<Rightarrow>
                             (case write_text fs1 out1 (json_dump geojson) of
                                (Inl e, fs2) \<Rightarrow> (Inl e, w\<lparr>files := fs2\<rparr>)
                              | (Inr u2, fs2) \<Rightarrow> (Inr geojson, w\<lparr>files := fs2\<rparr>))))))"

section \<open>The class \<open>Map\<close>\<close>

text \<open>
  Of the widget only the layer list matters here: \<open>add_layer\<close> appends a layer to it. The
  constructor of \<open>Map\<close>, which registers the controls and the base layer, plays no part in
  the methods below.
\<close>

datatype layer =
    TileLayer (url_of: string) (name_of: "string option") (opacity_of: real)
      (visible_of: bool) (attribution_of: string)
  | GeoJSON (data_of: pyval) (style_of: pyval) (name_of: "string option")

text \<open>
  \<open>TileLayer(url=..., name=..., opacity=..., visible=..., attribution=...)\<close>: the widget
  library validates what it is given. The name is a string, so \<open>None\<close> is refused, and the
  opacity lies between 0 and 1; a value outside raises \<open>TraitError\<close>, the name being looked
  at first. The URL and the attribution are strings and the visibility is a truth value
  in every call made here.
\<close>

definition TileLayer_init ::
  "string \<Rightarrow> string option \<Rightarrow> real \<Rightarrow> bool \<Rightarrow> string \<Rightarrow> error + layer" where
  "TileLayer_init u nm opac vis attr =
     (case nm of
        None \<Rightarrow> Inl (TraitError ''name'')
      | Some n \<Rightarrow>
          if 0 \<le> opac \<and> opac \<le> 1 then Inr (TileLayer u nm opac vis attr)
          else Inl (TraitError ''opacity''))"

record Map_widget =
  layers :: "layer list"

definition add_layer :: "Map_widget \<Rightarrow> layer \<Rightarrow> Map_widget" where
  "add_layer self lyr = self\<lparr>layers := layers self @ [lyr]\<rparr>"

text \<open>
  The constructor of \<open>GeoJSON\<close> is taken to accept the data, the style and the name it is
  given.

  \<open>add_geojson\<close> hands the path it is given to the operating system as it is. The system
  resolves it component by component from the root or the working directory: a component
  can only be followed inside a directory, and the empty path names nothing.
\<close>

fun lookup_from :: "filesystem \<Rightarrow> apath \<Rightarrow> string list \<Rightarrow> apath option" where
  "lookup_from fs cur [] = (if fs cur = None then None else Some cur)"
| "lookup_from fs cur (c # cs) =
     (if fs cur \<noteq> Some Dir then None
      else if c = [] \<or> c = ''.'' then lookup_from fs cur cs
      else if c = ''..'' then lookup_from fs (butlast cur) cs
      else lookup_from fs (cur @ [c]) cs)"

definition resolve :: "world \<Rightarrow> string \<Rightarrow> apath option" where
  "resolve w p =
     (if p = [] then None
      else lookup_from (files w) (if isabs p then [] else cwd w) (split_sep p))"

text \<open>\<open>with open(p) as f: data = json.load(f)\<close>, for a path that \<open>os.path.exists\<close> accepted.\<close>

definition load_json_file :: "world \<Rightarrow> apath \<Rightarrow> error + pyval" where
  "load_json_file w q =
     (case files w q of
        Some (File c) \<Rightarrow> (case json_load c of None \<Rightarrow> Inl JSONDecodeError | Some d \<Rightarrow> Inr d)
      | Some Dir \<Rightarrow> Inl IsADirectoryError
      | None \<Rightarrow> Inl (FileNotFoundError ''No such file or directory''))"

definition add_geojson ::
  "ext \<Rightarrow> world \<Rightarrow> Map_widget \<Rightarrow> pyval \<Rightarrow> pyval \<Rightarrow> string \<Rightarrow> (error + Map_widget) \<times> world" where
  "add_geojson X w self in_geojson style layer_name =
     (let (layer_name1, w1) =
            (if layer_name = ''Untitled''
             then (case random_string X (rng w) of (s, g) \<Rightarrow> (''Untitled_'' @ s, w\<lparr>rng := g\<rparr>))
             else (layer_name, w))
      in
      case (case in_geojson of
              PStr p \<Rightarrow>
                (case resolve w1 p of
                   None \<Rightarrow> Inl (FileNotFoundError ''GeoJSON file not found.'')
                 | Some q \<Rightarrow> load_json_file w1 q)
            | PDict kvs \<Rightarrow> Inr in_geojson
            | _ \<Rightarrow> Inl (TypeError ''GeoJSON must be a file path or dict.''))
      of
        Inl e \<Rightarrow> (Inl e, w1)
      | Inr d \<Rightarrow>
          (let style1 =
                 (if style = PNone
                  then PDict [(''stroke'', PBool True),
                              (''color'', PStr ''#000000''),
                              (''weight'', PInt 2),
                              (''opacity'', PInt 1),
                              (''fill'', PBool True),
                              (''fillColor'', PStr ''#0000ff''),
                              (''fillOpacity'', PFloat 0.4)]
                  else style)
           in (Inr (add_layer self (GeoJSON d style1 (Some layer_name1))), w1)))"


text \<open>
  The two \<open>vis_params={}\<close> defaults are two \<open>dict\<close> objects made once, when the methods are
  defined, and shared by all calls that leave the argument out. \<open>dicts w r\<close> is what the
  \<open>dict\<close> at reference \<open>r\<close> holds; a call names its \<open>vis_params\<close> by reference, \<open>None\<close> for an
  argument left out.
\<close>

definition add_ee_layer_default :: nat where
  "add_ee_layer_default = 0"

definition ee_tile_layer_default :: nat where
  "ee_tile_layer_default = 1"

definition ee_tile_layer ::
  "ext \<Rightarrow> world \<Rightarrow> ee_object \<Rightarrow> nat option \<Rightarrow> string option \<Rightarrow> bool \<Rightarrow> real
     \<Rightarrow> (error + layer) \<times> world" where
  "ee_tile_layer X w ee_obj vis_params nm shown opac =
     (let vis = (case vis_params of None \<Rightarrow> ee_tile_layer_default | Some r \<Rightarrow> r) in
      if \<not> isinstance ee_obj
             [EE_Image, EE_ImageCollection, EE_Feature, EE_FeatureCollection, EE_Geometry]
      then (Inl (AttributeError
                  ''ee_object must be an Earth Engine Image, Feature, or Collection.''), w)
      else
        (let ee_obj1 = (if isinstance ee_obj [EE_ImageCollection] then mosaic ee_obj else ee_obj);
             mid = getMapId X ee_obj1 (dicts w vis);
             tile_url = url_format (tile_fetcher mid);
             tile_layer = TileLayer_init tile_url nm opac shown ''Google Earth Engine''
         in (tile_layer, w)))"

definition add_ee_layer ::
  "ext \<Rightarrow> world \<Rightarrow> Map_widget \<Rightarrow> ee_object \<Rightarrow> nat option \<Rightarrow> string option \<Rightarrow> bool \<Rightarrow> real
     \<Rightarrow> (error + Map_widget) \<times> world" where
  "add_ee_layer X w self ee_obj vis_params nm shown opac =
     (let vis = (case vis_params of None \<Rightarrow> add_ee_layer_default | Some r \<Rightarrow> r) in
      case ee_tile_layer X w ee_obj (Some vis) nm shown opac of
        (Inl e, w1) \<Rightarrow> (Inl e, w1)
      | (Inr lyr, w1) \<Rightarrow> (Inr (add_layer self lyr), w1))"

text \<open>A session of calls to the two Earth Engine methods, one after the other.\<close>

datatype call =
    Call_add_ee_layer ee_object "nat option" "string option" bool real
  | Call_ee_tile_layer ee_object "nat option" "string option" bool real

fun run_call :: "ext \<Rightarrow> world \<times> Map_widget \<Rightarrow> call \<Rightarrow> world \<times> Map_widget" where
  "run_call X (w, m) (Call_add_ee_layer ob vis nm shown opac) =
     (case add_ee_layer X w m ob vis nm shown opac of
        (Inl e, w1) \<Rightarrow> (w1, m)
      | (Inr m1, w1) \<Rightarrow> (w1, m1))"
| "run_call X (w, m) (Call_ee_tile_layer ob vis nm shown opac) =
     (case ee_tile_layer X w ob vis nm shown opac of (r, w1) \<Rightarrow> (w1, m))"

fun run_calls :: "ext \<Rightarrow> world \<times> Map_widget \<Rightarrow> call list \<Rightarrow> world \<times> Map_widget" where
  "run_calls X st [] = st"
| "run_calls X st (c # cs) = run_calls X (run_call X st c) cs"

section \<open>A concrete world\<close>

text \<open>
  A small world on which the theorems below are exercised: a home directory with two
  shapefiles and a text file, and a reader that reads the first shapefile as an empty
  feature collection and the second as a collection of one point, whose coordinates are a
  tuple, as the shapefile library returns them. A path that is no shapefile is refused by
  the reader.
\<close>

definition demo_fc :: pyval where
  "demo_fc = PDict [(''type'', PStr ''FeatureCollection''), (''features'', PList [])]"

definition demo_fc2 :: pyval where
  "demo_fc2 =
     PDict [(''type'', PStr ''FeatureCollection''),
            (''features'',
             PList [PDict [(''type'', PStr ''Feature''),
                           (''properties'', PDict []),
                           (''geometry'', PDict [(''type'', PStr ''Point''),
                                                 (''coordinates'', PTuple [PFloat 1, PFloat 2])])]])]"

definition demo_files :: filesystem where
  "demo_files =
     [[] \<mapsto> Dir,
      [''home''] \<mapsto> Dir,
      [''home'', ''countries.shp''] \<mapsto> File (Text ''shp''),
      [''home'', ''rivers.shp''] \<mapsto> File (Text ''shp2''),
      [''home'', ''notes.txt''] \<mapsto> File (Text ''hello'')]"

definition demo_world :: world where
  "demo_world = \<lparr>cwd = [''home''], files = demo_files, rng = 0, dicts = (\<lambda>r. PDict [])\<rparr>"

definition demo_reader :: "filesystem \<Rightarrow> apath \<Rightarrow> error + pyval" where
  "demo_reader fs p =
     (case fs p of
        Some (File c) \<Rightarrow>
          (if c = Text ''shp'' then Inr demo_fc
           else if c = Text ''shp2'' then Inr demo_fc2
           else Inl (ShapefileException ''not a shapefile''))
      | Some Dir \<Rightarrow> Inl (ShapefileException ''Unable to open'')
      | None \<Rightarrow> Inl (ShapefileException ''Unable to open''))"

definition demo_map_id :: "ee_object \<Rightarrow> pyval \<Rightarrow> map_id" where
  "demo_map_id ob vis =
     \<lparr>mapid = ''m1'',
      tile_fetcher = \<lparr>url_format = (case ob of Mosaic c \<Rightarrow> ''tiles/mosaic/{z}/{x}/{y}''
                                       | _ \<Rightarrow> ''tiles/{z}/{x}/{y}'')\<rparr>\<rparr>"

definition demo_ext :: ext where
  "demo_ext =
     \<lparr>shapefile_Reader = demo_reader,
      random_string = (\<lambda>g. (''k3x9'', Suc g)),
      getMapId = demo_map_id\<rparr>"

definition demo_map :: Map_widget where
  "demo_map = \<lparr>layers = []\<rparr>"

section \<open>Paths and the file system\<close>

lemma norm_comps_no_dot: "''.'' \<notin> set acc \<Longrightarrow> ''.'' \<notin> set (norm_comps acc xs)"
proof (induction xs arbitrary: acc)
  case Nil
  then show ?case by simp
next
  case (Cons c cs)
  have b: "''.'' \<notin> set (butlast acc)" using Cons.prems by (meson in_set_butlastD)
  have 1: "''.'' \<notin> set (norm_comps acc cs)" using Cons.IH[OF Cons.prems] .
  have 2: "c \<noteq> ''.'' \<Longrightarrow> ''.'' \<notin> set (norm_comps (acc @ [c]) cs)"
    using Cons.IH[of "acc @ [c]"] Cons.prems by simp
  have 3: "''.'' \<notin> set (norm_comps (butlast acc) cs)" using Cons.IH[OF b] .
  show ?case using 1 2 3 by (cases "acc = []") simp_all
qed

lemma abspath_no_dot: "''.'' \<notin> set (abspath wd p)"
  by (simp add: abspath_def norm_comps_no_dot)

lemma valid_fs_root: "valid_fs fs \<Longrightarrow> fs [] = Some Dir"
  by (simp add: valid_fs_def)

lemma valid_fs_parent: "valid_fs fs \<Longrightarrow> p \<noteq> [] \<Longrightarrow> fs p \<noteq> None \<Longrightarrow> fs (butlast p) = Some Dir"
  by (simp add: valid_fs_def)

lemma valid_fs_ancestor:
  "valid_fs fs \<Longrightarrow> fs p \<noteq> None \<Longrightarrow> strict_prefix q p \<Longrightarrow> fs q = Some Dir"
proof (induction p rule: rev_induct)
  case Nil
  then show ?case by simp
next
  case (snoc x xs)
  have par: "fs xs = Some Dir" using valid_fs_parent[OF snoc.prems(1), of "xs @ [x]"] snoc.prems(2) by simp
  from snoc.prems(3) have "prefix q xs" by (metis prefix_snoc strict_prefix_def)
  then consider "q = xs" | "strict_prefix q xs" by (auto simp: strict_prefix_def)
  then show ?case
  proof cases
    case 1 then show ?thesis using par by simp
  next
    case 2 then show ?thesis using snoc.IH snoc.prems(1) par by simp
  qed
qed

lemma mkdir_unfold:
  "mkdir_exist_ok fs p =
     (if fs p = Some Dir then (Inr (), fs)
      else if fs p \<noteq> None then (Inl FileExistsError, fs)
      else (case fs (butlast p) of
              None \<Rightarrow> (Inl (FileNotFoundError ''No such file or directory''), fs)
            | Some (File _) \<Rightarrow> (Inl NotADirectoryError, fs)
            | Some Dir \<Rightarrow> (Inr (), fs(p \<mapsto> Dir))))"
  by (auto simp: mkdir_exist_ok_def mkdir_def isdir_def split: option.splits node.splits)


lemma prefix_butlast_iff: "p \<noteq> [] \<Longrightarrow> prefix q (butlast p) \<longleftrightarrow> strict_prefix q p"
proof -
  assume "p \<noteq> []"
  then obtain xs x where p: "p = xs @ [x]" by (metis rev_exhaust)
  show ?thesis unfolding p by (auto simp: strict_prefix_def prefix_snoc)
qed

lemma valid_fs_mkdir:
  assumes v: "valid_fs fs" and n: "fs p = None" and d: "fs (butlast p) = Some Dir"
  shows "valid_fs (fs(p \<mapsto> Dir))"
proof -
  have pne: "p \<noteq> []" using v n by (auto simp: valid_fs_def)
  have bp: "butlast p \<noteq> p" using n d by auto
  show ?thesis
    unfolding valid_fs_def
  proof (intro conjI allI impI)
    show "(fs(p \<mapsto> Dir)) [] = Some Dir" using v pne by (simp add: valid_fs_def)
  next
    fix q assume q: "q \<noteq> [] \<and> (fs(p \<mapsto> Dir)) q \<noteq> None"
    show "(fs(p \<mapsto> Dir)) (butlast q) = Some Dir"
    proof (cases "q = p")
      case True
      then show ?thesis using d bp by simp
    next
      case False
      then have "fs q \<noteq> None" using q by simp
      then have "fs (butlast q) = Some Dir" using v q by (simp add: valid_fs_def)
      then show ?thesis by simp
    qed
  qed
qed

lemma mkdir_exist_ok_inv:
  assumes v: "valid_fs fs" and m: "mkdir_exist_ok fs p = (r, fs1)"
  shows "valid_fs fs1" and "fs q \<noteq> None \<Longrightarrow> fs1 q = fs q"
    and "r = Inr () \<Longrightarrow> fs1 p = Some Dir" and "r \<noteq> Inl (TypeError msg)"
    and "r = Inr () \<or> fs1 = fs"
proof -
  consider (dir) "fs p = Some Dir" | (other) "fs p \<noteq> Some Dir" "fs p \<noteq> None"
    | (none) "fs p = None" by blast
  then have "valid_fs fs1 \<and> (fs q \<noteq> None \<longrightarrow> fs1 q = fs q) \<and> (r = Inr () \<longrightarrow> fs1 p = Some Dir)
      \<and> r \<noteq> Inl (TypeError msg) \<and> (r = Inr () \<or> fs1 = fs)"
  proof cases
    case dir
    then show ?thesis using m v by (auto simp: mkdir_unfold)
  next
    case other
    then show ?thesis using m v by (auto simp: mkdir_unfold)
  next
    case none
    show ?thesis
    proof (cases "fs (butlast p)")
      case None
      then show ?thesis using m v none by (auto simp: mkdir_unfold)
    next
      case (Some nd)
      show ?thesis
      proof (cases nd)
        case Dir
        then have "fs1 = fs(p \<mapsto> Dir)" "r = Inr ()" using m none Some by (auto simp: mkdir_unfold)
        then show ?thesis using valid_fs_mkdir[OF v none] Some Dir none by auto
      next
        case (File s)
        then show ?thesis using m v none Some by (auto simp: mkdir_unfold)
      qed
    qed
  qed
  then show "valid_fs fs1" and "fs q \<noteq> None \<Longrightarrow> fs1 q = fs q"
    and "r = Inr () \<Longrightarrow> fs1 p = Some Dir" and "r \<noteq> Inl (TypeError msg)"
    and "r = Inr () \<or> fs1 = fs" by auto
qed

lemma makedirs_existing:
  assumes v: "valid_fs fs" and d: "fs name = Some Dir"
  shows "makedirs fs name = (Inr (), fs)"
proof -
  have "name \<noteq> [] \<Longrightarrow> path_exists fs (butlast name)"
    using valid_fs_parent[OF v, of name] d by (simp add: path_exists_def)
  then show ?thesis
    by (subst makedirs.simps) (auto simp: mkdir_unfold d)
qed


lemma makedirs_inv:
  "valid_fs fs \<Longrightarrow> makedirs fs name = (r, fs1) \<Longrightarrow>
     valid_fs fs1 \<and> (\<forall>q. fs q \<noteq> None \<longrightarrow> fs1 q = fs q)
     \<and> (r = Inr () \<and> ''.'' \<notin> set name \<longrightarrow> fs1 name = Some Dir)
     \<and> (\<forall>msg. r \<noteq> Inl (TypeError msg))"
proof (induction name arbitrary: r fs1 rule: rev_induct)
  case Nil
  have "mkdir_exist_ok fs [] = (r, fs1)" using Nil.prems(2) by (subst (asm) makedirs.simps) simp
  then show ?case using mkdir_exist_ok_inv[OF Nil.prems(1)] by blast
next
  case (snoc t d)
  show ?case
  proof (cases "path_exists fs d")
    case True
    then have "mkdir_exist_ok fs (d @ [t]) = (r, fs1)"
      using snoc.prems(2) by (subst (asm) makedirs.simps) simp
    then show ?thesis using mkdir_exist_ok_inv[OF snoc.prems(1)] by blast
  next
    case False
    obtain r0 fs0 where rec: "makedirs fs d = (r0, fs0)" by (cases "makedirs fs d") auto
    note ih = snoc.IH[OF snoc.prems(1) rec]
    have eq: "makedirs fs (d @ [t]) =
                (if r0 \<noteq> Inr () \<and> r0 \<noteq> Inl FileExistsError then (r0, fs0)
                 else if t = ''.'' then (Inr (), fs0)
                 else mkdir_exist_ok fs0 (d @ [t]))"
      using False rec by (subst makedirs.simps) simp
    have step: "(if r0 \<noteq> Inr () \<and> r0 \<noteq> Inl FileExistsError then (r0, fs0)
                 else if t = ''.'' then (Inr (), fs0)
                 else mkdir_exist_ok fs0 (d @ [t])) = (r, fs1)"
      using snoc.prems(2) by (simp only: eq)
    show ?thesis
    proof (cases "r0 \<noteq> Inr () \<and> r0 \<noteq> Inl FileExistsError")
      case True
      then have "r = r0" "fs1 = fs0" using step by auto
      then show ?thesis using ih True by auto
    next
      case nf: False
      show ?thesis
      proof (cases "t = ''.''")
        case True
        then have "r = Inr ()" "fs1 = fs0" using step nf by auto
        then show ?thesis using ih True by auto
      next
        case False
        then have mk: "mkdir_exist_ok fs0 (d @ [t]) = (r, fs1)" using step nf by auto
        have v0: "valid_fs fs0" using ih by blast
        note inv = mkdir_exist_ok_inv[OF v0 mk]
        have mono: "\<forall>q. fs q \<noteq> None \<longrightarrow> fs1 q = fs q"
        proof (intro allI impI)
          fix q assume q: "fs q \<noteq> None"
          then have "fs0 q = fs q" using ih by blast
          then show "fs1 q = fs q" using inv(2)[of q] q by simp
        qed
        show ?thesis using inv(1) inv(3) inv(4) mono by blast
      qed
    qed
  qed
qed

lemma makedirs_creates:
  "valid_fs fs \<Longrightarrow> \<forall>q. prefix q name \<longrightarrow> \<not> isfile fs q \<Longrightarrow> ''.'' \<notin> set name \<Longrightarrow>
     makedirs fs name = (Inr (), (\<lambda>q. if prefix q name then Some Dir else fs q))"
proof (induction name rule: rev_induct)
  case Nil
  have "(\<lambda>q. if prefix q [] then Some Dir else fs q) = fs"
    using valid_fs_root[OF Nil.prems(1)] by auto
  then show ?case using makedirs_existing[OF Nil.prems(1) valid_fs_root[OF Nil.prems(1)]] by simp
next
  case (snoc t d)
  let ?n = "d @ [t]"
  let ?F = "\<lambda>n q. if prefix q n then Some Dir else fs q"
  have v: "valid_fs fs" by fact
  have t: "t \<noteq> ''.''" using snoc.prems(3) by auto
  have nf: "\<not> isfile fs ?n" using snoc.prems(2) by blast
  have nfd: "\<not> isfile fs d" using snoc.prems(2) by (simp add: prefix_snoc)
  have Fsnoc: "?F ?n = (?F d)(?n \<mapsto> Dir)"
    by (rule ext) (auto simp: prefix_snoc)
  show ?case
  proof (cases "fs d")
    case None
    have rec: "makedirs fs d = (Inr (), ?F d)"
      using snoc.IH[OF v] snoc.prems(2,3) by (simp add: prefix_snoc)
    have nn: "fs ?n = None"
    proof (rule ccontr)
      assume "fs ?n \<noteq> None"
      then have "fs (butlast ?n) = Some Dir" using valid_fs_parent[OF v] by blast
      then show False using None by simp
    qed
    have "mkdir_exist_ok (?F d) ?n = (Inr (), (?F d)(?n \<mapsto> Dir))"
      by (simp add: mkdir_unfold nn)
    then show ?thesis
      using rec None t Fsnoc by (subst makedirs.simps) (simp add: path_exists_def)
  next
    case (Some nd)
    then have dd: "fs d = Some Dir" using nfd by (cases nd) (auto simp: isfile_def)
    have anc: "\<And>q. prefix q d \<Longrightarrow> fs q = Some Dir"
      using valid_fs_ancestor[OF v, of d] dd by (auto simp: strict_prefix_def)
    have top: "makedirs fs ?n = mkdir_exist_ok fs ?n"
      using dd by (subst makedirs.simps) (simp add: path_exists_def)
    show ?thesis
    proof (cases "fs ?n")
      case None
      have "?F ?n = fs(?n \<mapsto> Dir)" by (rule ext) (auto simp: prefix_snoc anc)
      then show ?thesis using top None dd by (simp add: mkdir_unfold)
    next
      case (Some nd2)
      then have "fs ?n = Some Dir" using nf by (cases nd2) (auto simp: isfile_def)
      moreover from this have "?F ?n = fs" by (auto simp: prefix_snoc anc intro!: ext)
      ultimately show ?thesis using top by (simp add: mkdir_unfold)
    qed
  qed
qed


lemma write_text_ok:
  "fs p \<noteq> Some Dir \<Longrightarrow> fs (butlast p) = Some Dir \<Longrightarrow>
     write_text fs p s = (Inr (), fs(p \<mapsto> File s))"
  by (auto simp: write_text_def split: option.splits node.splits)

lemma write_text_success:
  assumes v: "valid_fs fs" and w: "write_text fs p s = (Inr u, fs2)"
  shows "fs2 = fs(p \<mapsto> File s)" and "fs p \<noteq> Some Dir" and "fs (butlast p) = Some Dir"
    and "p \<noteq> []"
proof -
  show nd: "fs p \<noteq> Some Dir" using w by (auto simp: write_text_def)
  show "fs2 = fs(p \<mapsto> File s)"
    using w by (auto simp: write_text_def split: option.splits node.splits)
  show pne: "p \<noteq> []" using nd valid_fs_root[OF v] by auto
  show "fs (butlast p) = Some Dir"
  proof (cases "fs p")
    case None
    then show ?thesis using w by (auto simp: write_text_def split: option.splits node.splits)
  next
    case (Some nd)
    then show ?thesis using valid_fs_parent[OF v pne] by simp
  qed
qed


lemma valid_fs_write:
  assumes v: "valid_fs fs" and nd: "fs p \<noteq> Some Dir" and d: "fs (butlast p) = Some Dir"
  shows "valid_fs (fs(p \<mapsto> File s))"
proof -
  have pne: "p \<noteq> []" using nd valid_fs_root[OF v] by auto
  have bp: "butlast p \<noteq> p" using nd d by auto
  show ?thesis
    unfolding valid_fs_def
  proof (intro conjI allI impI)
    show "(fs(p \<mapsto> File s)) [] = Some Dir" using v pne by (simp add: valid_fs_def)
  next
    fix q assume q: "q \<noteq> [] \<and> (fs(p \<mapsto> File s)) q \<noteq> None"
    show "(fs(p \<mapsto> File s)) (butlast q) = Some Dir"
    proof (cases "q = p")
      case True
      then show ?thesis using d bp by simp
    next
      case False
      then have "fs q \<noteq> None" using q by simp
      then have "fs (butlast q) = Some Dir" using v q by (simp add: valid_fs_def)
      then show ?thesis using nd by auto
    qed
  qed
qed


section \<open>JSON read back\<close>

lemma of_json_to_json: "of_json (to_json v) = tuples_to_lists v"
  by (induction v) (auto simp: map_idI)

lemma map_fixed_iff: "map f xs = xs \<longleftrightarrow> (\<forall>x\<in>set xs. f x = x)"
  by (induction xs) auto

lemma tuples_to_lists_id_iff: "tuples_to_lists v = v \<longleftrightarrow> \<not> has_tuple v"
proof (induction v)
  case (PList xs)
  then show ?case by (simp add: map_fixed_iff list_ex_iff)
next
  case (PDict kvs)
  have "\<And>kv. kv \<in> set kvs \<Longrightarrow> (map_prod id tuples_to_lists kv = kv) = (\<not> has_tuple (snd kv))"
  proof -
    fix kv assume "kv \<in> set kvs"
    moreover obtain k v where kv: "kv = (k, v)" by (cases kv)
    ultimately have "(tuples_to_lists v = v) = (\<not> has_tuple v)"
      using PDict.IH[of "(k, v)" v] by simp
    then show "(map_prod id tuples_to_lists kv = kv) = (\<not> has_tuple (snd kv))"
      by (simp add: kv)
  qed
  then show ?case by (simp add: map_fixed_iff list_ex_iff)
qed simp_all

lemma json_load_json_dump: "json_load (json_dump v) = Some (tuples_to_lists v)"
  by (simp add: json_load_def json_dump_def of_json_to_json)

section \<open>\<open>shp_to_geojson\<close> on string paths\<close>

lemma shp_to_geojson_read:
  assumes "path_exists (files w) (abspath (cwd w) in_shp)"
    and "shapefile_Reader X (files w) (abspath (cwd w) in_shp) = Inr g"
  shows "shp_to_geojson X w (PStr in_shp) PNone = (Inr g, w)"
  using assms by (simp add: shp_to_geojson_def py_abspath_def)

lemma shp_to_geojson_write:
  assumes v: "valid_fs (files w)"
    and ex: "path_exists (files w) (abspath (cwd w) in_shp)"
    and rd: "shapefile_Reader X (files w) (abspath (cwd w) in_shp) = Inr g"
    and anc: "\<forall>q\<in>set (prefixes (dirname (abspath (cwd w) out))). \<not> isfile (files w) q"
    and nd: "\<not> isdir (files w) (abspath (cwd w) out)"
  shows "shp_to_geojson X w (PStr in_shp) (PStr out) =
           (Inr g, w\<lparr>files := (\<lambda>q. if q = abspath (cwd w) out then Some (File (json_dump g))
                                     else if strict_prefix q (abspath (cwd w) out) then Some Dir
                                     else files w q)\<rparr>)"
proof -
  let ?o = "abspath (cwd w) out"
  let ?d = "butlast ?o"
  let ?fs1 = "\<lambda>q. if prefix q ?d then Some Dir else files w q"
  have one: "?o \<noteq> []" using nd valid_fs_root[OF v] by (auto simp: isdir_def)
  have nodot: "''.'' \<notin> set ?d" using abspath_no_dot[of "cwd w" out] by (meson in_set_butlastD)
  have anc': "\<forall>q. prefix q ?d \<longrightarrow> \<not> isfile (files w) q"
    using anc by (simp add: dirname_def in_set_prefixes)
  have mk: "makedirs (files w) ?d = (Inr (), ?fs1)"
    using makedirs_creates[OF v anc' nodot] .
  have np: "\<not> prefix ?o ?d" using one by (simp add: prefix_butlast_iff)
  have "?fs1 ?o \<noteq> Some Dir" using nd np by (simp add: isdir_def)
  moreover have "?fs1 (butlast ?o) = Some Dir" by simp
  ultimately have wr: "write_text ?fs1 ?o (json_dump g) = (Inr (), ?fs1(?o \<mapsto> File (json_dump g)))"
    by (rule write_text_ok)
  have fin: "?fs1(?o \<mapsto> File (json_dump g)) =
        (\<lambda>q. if q = ?o then Some (File (json_dump g))
              else if strict_prefix q ?o then Some Dir else files w q)"
    by (rule ext) (simp add: prefix_butlast_iff[OF one])
  show ?thesis
    using ex rd mk wr unfolding fin
    by (simp add: shp_to_geojson_def py_abspath_def dirname_def Let_def)
qed

lemma demo_valid: "valid_fs demo_files"
  unfolding valid_fs_def demo_files_def
  by (auto split: if_splits)

lemma demo_abspath:
  "abspath [''home''] ''countries.shp'' = [''home'', ''countries.shp'']"
  "abspath [''home''] ''rivers.shp'' = [''home'', ''rivers.shp'']"
  "abspath [''home''] ''out/c.json'' = [''home'', ''out'', ''c.json'']"
  "abspath [''home''] ''out/r.json'' = [''home'', ''out'', ''r.json'']"
  "abspath [''home''] ''/home'' = [''home'']"
  "abspath [''home''] ''notes.txt/c.json'' = [''home'', ''notes.txt'', ''c.json'']"
  "abspath [''home''] ''nope.shp'' = [''home'', ''nope.shp'']"
  by (simp_all add: abspath_def isabs_def)

lemma demo_first_call:
  "shp_to_geojson demo_ext demo_world (PStr ''countries.shp'') (PStr ''out/c.json'') =
     (Inr demo_fc,
      demo_world\<lparr>files := demo_files([''home'', ''out''] \<mapsto> Dir,
                                        [''home'', ''out'', ''c.json''] \<mapsto> File (json_dump demo_fc))\<rparr>)"
  by (simp add: shp_to_geojson_def py_abspath_def demo_ext_def demo_world_def demo_files_def
      demo_abspath path_exists_def demo_reader_def dirname_def makedirs.simps mkdir_unfold
      write_text_def Let_def)

lemma demo_rivers_call:
  "shp_to_geojson demo_ext demo_world (PStr ''rivers.shp'') (PStr ''out/r.json'') =
     (Inr demo_fc2,
      demo_world\<lparr>files := demo_files([''home'', ''out''] \<mapsto> Dir,
                                        [''home'', ''out'', ''r.json''] \<mapsto> File (json_dump demo_fc2))\<rparr>)"
  by (simp add: shp_to_geojson_def py_abspath_def demo_ext_def demo_world_def demo_files_def
      demo_abspath path_exists_def demo_reader_def dirname_def makedirs.simps mkdir_unfold
      write_text_def Let_def)

section \<open>Claims about \<open>shp_to_geojson\<close>\<close>

text \<open>
  Claim C1, as amended. For an input path that exists and whose data set the reader
  parses to a collection \<open>g\<close>: without an output path the call returns \<open>g\<close> and changes
  nothing. With an output path that no regular file lies on the way to and that is not a
  directory, in a valid file system, the call returns the same \<open>g\<close> and the file at the
  absolute output path holds the JSON text of \<open>g\<close>; read back, that file yields \<open>g\<close> with
  every tuple replaced by a list, so it equals the returned collection exactly when that
  holds no tuple.
\<close>

theorem shp_to_geojson_returns_collection:
  assumes ex: "path_exists (files w) (abspath (cwd w) in_shp)"
    and rd: "shapefile_Reader X (files w) (abspath (cwd w) in_shp) = Inr g"
  shows "shp_to_geojson X w (PStr in_shp) PNone = (Inr g, w) \<and>
         (valid_fs (files w) \<and>
          (\<forall>q\<in>set (prefixes (dirname (abspath (cwd w) out))). \<not> isfile (files w) q) \<and>
          \<not> isdir (files w) (abspath (cwd w) out) \<longrightarrow>
            fst (shp_to_geojson X w (PStr in_shp) (PStr out)) = Inr g \<and>
            files (snd (shp_to_geojson X w (PStr in_shp) (PStr out))) (abspath (cwd w) out)
              = Some (File (json_dump g)) \<and>
            load_json_file (snd (shp_to_geojson X w (PStr in_shp) (PStr out)))
              (abspath (cwd w) out) = Inr (tuples_to_lists g) \<and>
            (load_json_file (snd (shp_to_geojson X w (PStr in_shp) (PStr out)))
               (abspath (cwd w) out) = Inr g \<longleftrightarrow> \<not> has_tuple g))"
proof (intro conjI impI)
  show "shp_to_geojson X w (PStr in_shp) PNone = (Inr g, w)"
    using shp_to_geojson_read[OF ex rd] .
next
  assume a: "valid_fs (files w) \<and>
          (\<forall>q\<in>set (prefixes (dirname (abspath (cwd w) out))). \<not> isfile (files w) q) \<and>
          \<not> isdir (files w) (abspath (cwd w) out)"
  then have v: "valid_fs (files w)"
    and anc: "\<forall>q\<in>set (prefixes (dirname (abspath (cwd w) out))). \<not> isfile (files w) q"
    and nd: "\<not> isdir (files w) (abspath (cwd w) out)" by blast+
  note wr = shp_to_geojson_write[OF v ex rd anc nd]
  show "fst (shp_to_geojson X w (PStr in_shp) (PStr out)) = Inr g" by (simp add: wr)
  show "files (snd (shp_to_geojson X w (PStr in_shp) (PStr out))) (abspath (cwd w) out)
          = Some (File (json_dump g))" by (simp add: wr)
  show ld: "load_json_file (snd (shp_to_geojson X w (PStr in_shp) (PStr out)))
              (abspath (cwd w) out) = Inr (tuples_to_lists g)"
    by (simp add: wr load_json_file_def json_load_json_dump)
  show "load_json_file (snd (shp_to_geojson X w (PStr in_shp) (PStr out)))
               (abspath (cwd w) out) = Inr g \<longleftrightarrow> \<not> has_tuple g"
    unfolding ld by (simp add: tuples_to_lists_id_iff)
qed

text \<open>
  The theorem at the concrete world: \<open>countries.shp\<close>, whose collection holds no tuple, is
  converted with no output path and with the output path \<open>out/c.json\<close>, whose directory
  does not exist yet; the file read back is the collection returned.
\<close>

theorem shp_to_geojson_returns_collection_witness:
  "shp_to_geojson demo_ext demo_world (PStr ''countries.shp'') PNone = (Inr demo_fc, demo_world) \<and>
   fst (shp_to_geojson demo_ext demo_world (PStr ''countries.shp'') (PStr ''out/c.json''))
     = Inr demo_fc \<and>
   files (snd (shp_to_geojson demo_ext demo_world (PStr ''countries.shp'') (PStr ''out/c.json'')))
     [''home'', ''out'', ''c.json''] = Some (File (json_dump demo_fc)) \<and>
   load_json_file
     (snd (shp_to_geojson demo_ext demo_world (PStr ''countries.shp'') (PStr ''out/c.json'')))
     [''home'', ''out'', ''c.json''] = Inr demo_fc"
proof -
  have v: "valid_fs (files demo_world)" using demo_valid by (simp add: demo_world_def)
  have ex: "path_exists (files demo_world) (abspath (cwd demo_world) ''countries.shp'')"
    by (simp add: demo_world_def demo_abspath path_exists_def demo_files_def)
  have rd: "shapefile_Reader demo_ext (files demo_world) (abspath (cwd demo_world) ''countries.shp'')
              = Inr demo_fc"
    by (simp add: demo_world_def demo_abspath demo_ext_def demo_reader_def demo_files_def)
  have anc: "\<forall>q\<in>set (prefixes (dirname (abspath (cwd demo_world) ''out/c.json''))).
               \<not> isfile (files demo_world) q"
    by (simp add: demo_world_def demo_abspath dirname_def isfile_def demo_files_def)
  have nd: "\<not> isdir (files demo_world) (abspath (cwd demo_world) ''out/c.json'')"
    by (simp add: demo_world_def demo_abspath isdir_def demo_files_def)
  have nt: "\<not> has_tuple demo_fc" by (simp add: demo_fc_def)
  have o: "abspath (cwd demo_world) ''out/c.json'' = [''home'', ''out'', ''c.json'']"
    by (simp add: demo_world_def demo_abspath)
  show ?thesis
    using shp_to_geojson_returns_collection[OF ex rd, of "''out/c.json''"] v anc nd nt
    unfolding o by blast
qed

text \<open>
  Claim C1 as stated fails in two ways. With the existing directory \<open>/home\<close> as the output
  path, \<open>open\<close> raises \<open>IsADirectoryError\<close> and nothing is returned, although the same input
  is converted when no output path is given. And \<open>rivers.shp\<close>, whose point has its
  coordinates in a tuple, is converted and written, but the file read back holds a list
  where the returned collection holds the tuple, so the two are not equal.
\<close>

theorem shp_to_geojson_output_counterexample:
  "path_exists (files demo_world) (abspath (cwd demo_world) ''countries.shp'') \<and>
   fst (shp_to_geojson demo_ext demo_world (PStr ''countries.shp'') PNone) = Inr demo_fc \<and>
   fst (shp_to_geojson demo_ext demo_world (PStr ''countries.shp'') (PStr ''/home''))
     = Inl IsADirectoryError \<and>
   fst (shp_to_geojson demo_ext demo_world (PStr ''rivers.shp'') (PStr ''out/r.json''))
     = Inr demo_fc2 \<and>
   load_json_file
     (snd (shp_to_geojson demo_ext demo_world (PStr ''rivers.shp'') (PStr ''out/r.json'')))
     [''home'', ''out'', ''r.json'']
     = Inr (PDict [(''type'', PStr ''FeatureCollection''),
                   (''features'',
                    PList [PDict [(''type'', PStr ''Feature''),
                                  (''properties'', PDict []),
                                  (''geometry'',
                                   PDict [(''type'', PStr ''Point''),
                                          (''coordinates'', PList [PFloat 1, PFloat 2])])]])]) \<and>
   load_json_file
     (snd (shp_to_geojson demo_ext demo_world (PStr ''rivers.shp'') (PStr ''out/r.json'')))
     [''home'', ''out'', ''r.json'']
     \<noteq> Inr demo_fc2"
proof -
  have a: "path_exists (files demo_world) (abspath (cwd demo_world) ''countries.shp'')"
    by (simp add: demo_world_def demo_abspath path_exists_def demo_files_def)
  have b: "fst (shp_to_geojson demo_ext demo_world (PStr ''countries.shp'') PNone) = Inr demo_fc"
    by (simp add: shp_to_geojson_def py_abspath_def demo_ext_def demo_world_def demo_files_def
        demo_abspath path_exists_def demo_reader_def)
  have c: "fst (shp_to_geojson demo_ext demo_world (PStr ''countries.shp'') (PStr ''/home''))
             = Inl IsADirectoryError"
    by (simp add: shp_to_geojson_def py_abspath_def demo_ext_def demo_world_def demo_files_def
        demo_abspath path_exists_def demo_reader_def dirname_def makedirs.simps mkdir_unfold
        write_text_def Let_def)
  have d: "fst (shp_to_geojson demo_ext demo_world (PStr ''rivers.shp'') (PStr ''out/r.json''))
             = Inr demo_fc2"
    by (simp add: demo_rivers_call)
  have e: "load_json_file
     (snd (shp_to_geojson demo_ext demo_world (PStr ''rivers.shp'') (PStr ''out/r.json'')))
     [''home'', ''out'', ''r.json'']
     = Inr (PDict [(''type'', PStr ''FeatureCollection''),
                   (''features'',
                    PList [PDict [(''type'', PStr ''Feature''),
                                  (''properties'', PDict []),
                                  (''geometry'',
                                   PDict [(''type'', PStr ''Point''),
                                          (''coordinates'', PList [PFloat 1, PFloat 2])])]])])"
    unfolding demo_rivers_call
    by (simp add: load_json_file_def json_load_json_dump demo_fc2_def)
  have f: "load_json_file
     (snd (shp_to_geojson demo_ext demo_world (PStr ''rivers.shp'') (PStr ''out/r.json'')))
     [''home'', ''out'', ''r.json''] \<noteq> Inr demo_fc2"
    unfolding e by (simp add: demo_fc2_def)
  show ?thesis using a b c d e f by blast
qed

text \<open>
  Claim C5, as amended. For an input path that exists and parses to \<open>g\<close>, and an output
  path that no regular file lies on the way to and that is not a directory: the call
  succeeds; afterwards every directory above the output file exists, the output file holds
  exactly the JSON text of \<open>g\<close> whatever it held before, and nothing outside that chain of
  paths has changed. A second call with the same output path, on an input that parses to
  \<open>g2\<close>, changes that one file only, and the file then holds exactly the JSON text of \<open>g2\<close>:
  the write replaces the content.
\<close>

theorem shp_to_geojson_overwrites:
  assumes v: "valid_fs (files w)"
    and ex: "path_exists (files w) (abspath (cwd w) in_shp)"
    and rd: "shapefile_Reader X (files w) (abspath (cwd w) in_shp) = Inr g"
    and anc: "\<forall>q\<in>set (prefixes (dirname (abspath (cwd w) out))). \<not> isfile (files w) q"
    and nd: "\<not> isdir (files w) (abspath (cwd w) out)"
    and w1: "w1 = snd (shp_to_geojson X w (PStr in_shp) (PStr out))"
    and ex2: "path_exists (files w1) (abspath (cwd w1) in_shp2)"
    and rd2: "shapefile_Reader X (files w1) (abspath (cwd w1) in_shp2) = Inr g2"
  shows "fst (shp_to_geojson X w (PStr in_shp) (PStr out)) = Inr g \<and>
         (\<forall>q\<in>set (prefixes (dirname (abspath (cwd w) out))). isdir (files w1) q) \<and>
         files w1 (abspath (cwd w) out) = Some (File (json_dump g)) \<and>
         (\<forall>q. \<not> prefix q (abspath (cwd w) out) \<longrightarrow> files w1 q = files w q) \<and>
         shp_to_geojson X w1 (PStr in_shp2) (PStr out) =
           (Inr g2, w1\<lparr>files := (files w1)(abspath (cwd w) out \<mapsto> File (json_dump g2))\<rparr>)"
proof -
  let ?o = "abspath (cwd w) out"
  let ?fs1 = "\<lambda>q. if q = ?o then Some (File (json_dump g))
                   else if strict_prefix q ?o then Some Dir else files w q"
  have first: "shp_to_geojson X w (PStr in_shp) (PStr out) = (Inr g, w\<lparr>files := ?fs1\<rparr>)"
    using shp_to_geojson_write[OF v ex rd anc nd] .
  have w1eq: "w1 = w\<lparr>files := ?fs1\<rparr>" using w1 first by simp
  have cw: "cwd w1 = cwd w" and f1: "files w1 = ?fs1" using w1eq by simp_all
  have one: "?o \<noteq> []" using nd valid_fs_root[OF v] by (auto simp: isdir_def)
  have dirs: "\<forall>q\<in>set (prefixes (dirname ?o)). isdir (files w1) q"
    using one by (auto simp: f1 isdir_def dirname_def in_set_prefixes prefix_butlast_iff)
  have "valid_fs (\<lambda>q. if prefix q (butlast ?o) then Some Dir else files w q)"
  proof -
    have "''.'' \<notin> set (butlast ?o)"
      using abspath_no_dot[of "cwd w" out] by (meson in_set_butlastD)
    moreover have "\<forall>q. prefix q (butlast ?o) \<longrightarrow> \<not> isfile (files w) q"
      using anc by (simp add: dirname_def in_set_prefixes)
    ultimately show ?thesis using makedirs_creates[OF v] makedirs_inv[OF v] by blast
  qed
  then have "valid_fs ((\<lambda>q. if prefix q (butlast ?o) then Some Dir else files w q)
                 (?o \<mapsto> File (json_dump g)))"
    using nd one by (intro valid_fs_write) (simp_all add: isdir_def prefix_butlast_iff)
  moreover have "(\<lambda>q. if prefix q (butlast ?o) then Some Dir else files w q)
                 (?o \<mapsto> File (json_dump g)) = ?fs1"
    by (rule ext) (simp add: prefix_butlast_iff[OF one])
  ultimately have v1: "valid_fs (files w1)" by (simp add: f1)
  have anc1: "\<forall>q\<in>set (prefixes (dirname (abspath (cwd w1) out))). \<not> isfile (files w1) q"
    using dirs by (simp add: cw isfile_def isdir_def)
  have nd1: "\<not> isdir (files w1) (abspath (cwd w1) out)"
    by (simp add: cw f1 isdir_def)
  have second: "shp_to_geojson X w1 (PStr in_shp2) (PStr out) =
      (Inr g2, w1\<lparr>files := (\<lambda>q. if q = ?o then Some (File (json_dump g2))
                                 else if strict_prefix q ?o then Some Dir else files w1 q)\<rparr>)"
    using shp_to_geojson_write[OF v1 ex2 rd2 anc1 nd1] unfolding cw .
  have upd: "(\<lambda>q. if q = ?o then Some (File (json_dump g2))
                 else if strict_prefix q ?o then Some Dir else files w1 q)
             = (files w1)(?o \<mapsto> File (json_dump g2))"
    by (rule ext) (simp add: f1)
  have frame: "\<forall>q. \<not> prefix q ?o \<longrightarrow> files w1 q = files w q"
    by (auto simp: f1 strict_prefix_def)
  show ?thesis
    using first dirs frame second unfolding upd by (simp add: f1)
qed

text \<open>
  The theorem at the concrete world: \<open>countries.shp\<close> and then \<open>rivers.shp\<close> are written to
  \<open>out/c.json\<close>. The directory \<open>out\<close> is created, the other file of the home directory is
  untouched, and after the second call the file holds the second collection only.
\<close>

theorem shp_to_geojson_overwrites_witness:
  "fst (shp_to_geojson demo_ext demo_world (PStr ''countries.shp'') (PStr ''out/c.json''))
     = Inr demo_fc \<and>
   isdir (files (snd (shp_to_geojson demo_ext demo_world (PStr ''countries.shp'')
                        (PStr ''out/c.json''))))
     [''home'', ''out''] \<and>
   files (snd (shp_to_geojson demo_ext demo_world (PStr ''countries.shp'') (PStr ''out/c.json'')))
     [''home'', ''out'', ''c.json''] = Some (File (json_dump demo_fc)) \<and>
   files (snd (shp_to_geojson demo_ext demo_world (PStr ''countries.shp'') (PStr ''out/c.json'')))
     [''home'', ''notes.txt''] = Some (File (Text ''hello'')) \<and>
   files (snd (shp_to_geojson demo_ext
                 (snd (shp_to_geojson demo_ext demo_world (PStr ''countries.shp'')
                         (PStr ''out/c.json'')))
                 (PStr ''rivers.shp'') (PStr ''out/c.json'')))
     [''home'', ''out'', ''c.json''] = Some (File (json_dump demo_fc2))"
proof -
  let ?w1 = "snd (shp_to_geojson demo_ext demo_world (PStr ''countries.shp'') (PStr ''out/c.json''))"
  have v: "valid_fs (files demo_world)" using demo_valid by (simp add: demo_world_def)
  have ex: "path_exists (files demo_world) (abspath (cwd demo_world) ''countries.shp'')"
    by (simp add: demo_world_def demo_abspath path_exists_def demo_files_def)
  have rd: "shapefile_Reader demo_ext (files demo_world) (abspath (cwd demo_world) ''countries.shp'')
              = Inr demo_fc"
    by (simp add: demo_world_def demo_abspath demo_ext_def demo_reader_def demo_files_def)
  have anc: "\<forall>q\<in>set (prefixes (dirname (abspath (cwd demo_world) ''out/c.json''))).
               \<not> isfile (files demo_world) q"
    by (simp add: demo_world_def demo_abspath dirname_def isfile_def demo_files_def)
  have nd: "\<not> isdir (files demo_world) (abspath (cwd demo_world) ''out/c.json'')"
    by (simp add: demo_world_def demo_abspath isdir_def demo_files_def)
  have ex2: "path_exists (files ?w1) (abspath (cwd ?w1) ''rivers.shp'')"
    unfolding demo_first_call
    by (simp add: demo_world_def demo_abspath path_exists_def demo_files_def)
  have rd2: "shapefile_Reader demo_ext (files ?w1) (abspath (cwd ?w1) ''rivers.shp'') = Inr demo_fc2"
    unfolding demo_first_call
    by (simp add: demo_world_def demo_abspath demo_ext_def demo_reader_def demo_files_def)
  have o: "abspath (cwd demo_world) ''out/c.json'' = [''home'', ''out'', ''c.json'']"
    by (simp add: demo_world_def demo_abspath)
  have np: "\<not> prefix [''home'', ''notes.txt''] [''home'', ''out'', ''c.json'']" by simp
  note t = shp_to_geojson_overwrites[OF v ex rd anc nd refl ex2 rd2, unfolded o]
  from t have a: "fst (shp_to_geojson demo_ext demo_world (PStr ''countries.shp'')
                         (PStr ''out/c.json'')) = Inr demo_fc" by blast
  from t have "\<forall>q\<in>set (prefixes (dirname [''home'', ''out'', ''c.json''])). isdir (files ?w1) q"
    by blast
  then have b: "isdir (files ?w1) [''home'', ''out'']" by (simp add: dirname_def)
  from t have c: "files ?w1 [''home'', ''out'', ''c.json''] = Some (File (json_dump demo_fc))"
    by blast
  from t np have "files ?w1 [''home'', ''notes.txt''] = files demo_world [''home'', ''notes.txt'']"
    by blast
  then have d: "files ?w1 [''home'', ''notes.txt''] = Some (File (Text ''hello''))"
    by (simp add: demo_world_def demo_files_def)
  from t have "shp_to_geojson demo_ext ?w1 (PStr ''rivers.shp'') (PStr ''out/c.json'') =
      (Inr demo_fc2, ?w1\<lparr>files := (files ?w1)([''home'', ''out'', ''c.json'']
                                          \<mapsto> File (json_dump demo_fc2))\<rparr>)"
    by blast
  then have e: "files (snd (shp_to_geojson demo_ext ?w1 (PStr ''rivers.shp'') (PStr ''out/c.json'')))
                  [''home'', ''out'', ''c.json''] = Some (File (json_dump demo_fc2))"
    by simp
  show ?thesis using a b c d e by blast
qed

text \<open>
  Claim C5 as stated does not hold for every output path: below the regular file
  \<open>notes.txt\<close> no directory can be made, so \<open>makedirs\<close> raises \<open>FileExistsError\<close>, and
  neither a directory nor a file is written.
\<close>

theorem shp_to_geojson_blocked_output_counterexample:
  "path_exists (files demo_world) (abspath (cwd demo_world) ''countries.shp'') \<and>
   shp_to_geojson demo_ext demo_world (PStr ''countries.shp'') (PStr ''notes.txt/c.json'')
     = (Inl FileExistsError, demo_world)"
  by (simp add: shp_to_geojson_def py_abspath_def demo_ext_def demo_world_def demo_files_def
      demo_abspath path_exists_def demo_reader_def dirname_def makedirs.simps mkdir_unfold
      write_text_def Let_def)

text \<open>
  Claim C2, as amended. When the input path, made absolute, names nothing that exists,
  neither a regular file nor a directory (\<open>os.path.exists\<close> is false), the call raises
  \<open>FileNotFoundError\<close> with the module's message and leaves the world as it was, whatever
  the output argument is. The outcome is the same for every reader: the error is raised
  before the reader is consulted, so no parse error can take its place.
\<close>

theorem shp_to_geojson_missing_input:
  "\<not> path_exists (files w) (abspath (cwd w) in_shp) \<Longrightarrow>
     shp_to_geojson X w (PStr in_shp) out_geojson =
       (Inl (FileNotFoundError ''The provided shapefile could not be found.''), w)"
  by (simp add: shp_to_geojson_def py_abspath_def)

text \<open>
  The theorem at the concrete world: \<open>nope.shp\<close> does not exist, the call with the output
  path \<open>out/c.json\<close> fails, the world is unchanged and the output file does not exist.
\<close>

theorem shp_to_geojson_missing_input_witness:
  "\<not> path_exists (files demo_world) (abspath (cwd demo_world) ''nope.shp'') \<and>
   shp_to_geojson demo_ext demo_world (PStr ''nope.shp'') (PStr ''out/c.json'') =
     (Inl (FileNotFoundError ''The provided shapefile could not be found.''), demo_world) \<and>
   files demo_world [''home'', ''out'', ''c.json''] = None"
proof -
  have h: "\<not> path_exists (files demo_world) (abspath (cwd demo_world) ''nope.shp'')"
    by (simp add: demo_world_def demo_abspath path_exists_def demo_files_def)
  have n: "files demo_world [''home'', ''out'', ''c.json''] = None"
    by (simp add: demo_world_def demo_files_def)
  show ?thesis
    using h n shp_to_geojson_missing_input[OF h, of demo_ext "PStr ''out/c.json''"] by simp
qed

text \<open>
  Claim C2 as stated does not hold for an input path that names a directory: \<open>/home\<close> is
  no regular file, yet it exists, so the module's check lets it pass, the reader is
  asked to read it, and the error that leaves the call is the reader's, not
  \<open>FileNotFoundError\<close>.
\<close>

theorem shp_to_geojson_directory_input_counterexample:
  "isdir (files demo_world) (abspath (cwd demo_world) ''/home'') \<and>
   \<not> isfile (files demo_world) (abspath (cwd demo_world) ''/home'') \<and>
   shp_to_geojson demo_ext demo_world (PStr ''/home'') (PStr ''out/c.json'')
     = (Inl (ShapefileException ''Unable to open''), demo_world)"
  by (simp add: shp_to_geojson_def py_abspath_def demo_ext_def demo_world_def demo_files_def
      demo_abspath path_exists_def demo_reader_def isdir_def isfile_def)

text \<open>
  Claim C4. In a valid file system, when a call has returned a collection \<open>g\<close> and left
  the world \<open>w1\<close>, and the reader still sees the same data set at the input path, the same
  call made again in \<open>w1\<close> returns the same \<open>g\<close> and leaves \<open>w1\<close> as it is; so the two results
  have the same JSON text, and a file written by the first call is rewritten with the same
  content. The reader and the encoder are functions of what they read.
\<close>

theorem shp_to_geojson_deterministic:
  assumes v: "valid_fs (files w)"
    and first: "shp_to_geojson X w (PStr in_shp) out_geojson = (Inr g, w1)"
    and same: "shapefile_Reader X (files w1) (abspath (cwd w) in_shp)
                 = shapefile_Reader X (files w) (abspath (cwd w) in_shp)"
  shows "shp_to_geojson X w1 (PStr in_shp) out_geojson = (Inr g, w1) \<and>
         json_dump (projr (fst (shp_to_geojson X w1 (PStr in_shp) out_geojson)))
           = json_dump (projr (fst (shp_to_geojson X w (PStr in_shp) out_geojson)))"
proof -
  let ?i = "abspath (cwd w) in_shp"
  have ex: "path_exists (files w) ?i"
    using first by (auto simp: shp_to_geojson_def py_abspath_def split: if_splits)
  have rd: "shapefile_Reader X (files w) ?i = Inr g"
    using first ex
    by (auto simp: shp_to_geojson_def py_abspath_def
        split: sum.splits if_splits pyval.splits prod.splits)
  have main: "shp_to_geojson X w1 (PStr in_shp) out_geojson = (Inr g, w1)"
  proof (cases "out_geojson = PNone")
    case True
    then have "w1 = w" using first ex rd by (simp add: shp_to_geojson_def py_abspath_def)
    then show ?thesis using True ex rd by (simp add: shp_to_geojson_def py_abspath_def)
  next
    case False
    then obtain out where out: "out_geojson = PStr out"
      using first ex rd
      by (cases out_geojson) (auto simp: shp_to_geojson_def py_abspath_def)
    let ?o = "abspath (cwd w) out"
    let ?s = "json_dump g"
    obtain r1 fs1 where mk: "makedirs (files w) (butlast ?o) = (r1, fs1)"
      by (cases "makedirs (files w) (butlast ?o)") auto
    obtain r2 fs2 where wr: "write_text fs1 ?o ?s = (r2, fs2)"
      by (cases "write_text fs1 ?o ?s") auto
    have r1: "r1 = Inr ()" and r2: "r2 = Inr ()" and w1: "w1 = w\<lparr>files := fs2\<rparr>"
      using first ex rd out mk wr
      by (auto simp: shp_to_geojson_def py_abspath_def dirname_def split: sum.splits)
    have nodot: "''.'' \<notin> set (butlast ?o)"
      using abspath_no_dot[of "cwd w" out] by (meson in_set_butlastD)
    from makedirs_inv[OF v mk] r1 nodot
    have v1: "valid_fs fs1" and mono: "\<And>q. files w q \<noteq> None \<Longrightarrow> fs1 q = files w q"
      and d1: "fs1 (butlast ?o) = Some Dir" by auto
    from write_text_success[OF v1 wr[unfolded r2]]
    have f2: "fs2 = fs1(?o \<mapsto> File ?s)" and nd: "fs1 ?o \<noteq> Some Dir"
      and one: "?o \<noteq> []" by auto
    have v2: "valid_fs fs2" unfolding f2 using valid_fs_write[OF v1 nd d1] .
    have bo: "butlast ?o \<noteq> ?o" using nd d1 by auto
    have d2: "fs2 (butlast ?o) = Some Dir" using d1 bo by (simp add: f2)
    have mk2: "makedirs fs2 (butlast ?o) = (Inr (), fs2)" using makedirs_existing[OF v2 d2] .
    have wr2: "write_text fs2 ?o ?s = (Inr (), fs2)"
      by (auto simp: write_text_def f2)
    have ex2: "path_exists fs2 ?i"
      using ex mono[of ?i] by (auto simp: path_exists_def f2)
    have rd2: "shapefile_Reader X fs2 ?i = Inr g" using same rd by (simp add: w1)
    show ?thesis
      using ex2 rd2 mk2 wr2 out
      by (simp add: shp_to_geojson_def py_abspath_def w1 dirname_def)
  qed
  then show ?thesis using first by simp
qed

text \<open>
  The theorem at the concrete world: converting \<open>countries.shp\<close> to \<open>out/c.json\<close> twice gives
  the same collection and the same world as converting it once.
\<close>

theorem shp_to_geojson_deterministic_witness:
  "shp_to_geojson demo_ext demo_world (PStr ''countries.shp'') (PStr ''out/c.json'') =
     (Inr demo_fc,
      demo_world\<lparr>files := demo_files([''home'', ''out''] \<mapsto> Dir,
                                        [''home'', ''out'', ''c.json''] \<mapsto> File (json_dump demo_fc))\<rparr>) \<and>
   shp_to_geojson demo_ext
     (demo_world\<lparr>files := demo_files([''home'', ''out''] \<mapsto> Dir,
                                        [''home'', ''out'', ''c.json''] \<mapsto> File (json_dump demo_fc))\<rparr>)
     (PStr ''countries.shp'') (PStr ''out/c.json'') =
     (Inr demo_fc,
      demo_world\<lparr>files := demo_files([''home'', ''out''] \<mapsto> Dir,
                                        [''home'', ''out'', ''c.json''] \<mapsto> File (json_dump demo_fc))\<rparr>)"
proof -
  let ?w1 = "demo_world\<lparr>files := demo_files([''home'', ''out''] \<mapsto> Dir,
                                        [''home'', ''out'', ''c.json''] \<mapsto> File (json_dump demo_fc))\<rparr>"
  have v: "valid_fs (files demo_world)" using demo_valid by (simp add: demo_world_def)
  have same: "shapefile_Reader demo_ext (files ?w1) (abspath (cwd demo_world) ''countries.shp'')
                = shapefile_Reader demo_ext (files demo_world)
                    (abspath (cwd demo_world) ''countries.shp'')"
    by (simp add: demo_world_def demo_abspath demo_ext_def demo_reader_def demo_files_def)
  from shp_to_geojson_deterministic[OF v demo_first_call same] demo_first_call
  show ?thesis by blast
qed

section \<open>Claims about the class \<open>Map\<close>\<close>

text \<open>What a successful \<open>add_geojson\<close> has appended to the layer list.\<close>

lemma add_geojson_success:
  assumes "fst (add_geojson X w self in_geojson style layer_name) = Inr self1"
  shows "\<exists>d. self1 = add_layer self
            (GeoJSON d
               (if style = PNone
                then PDict [(''stroke'', PBool True), (''color'', PStr ''#000000''),
                            (''weight'', PInt 2), (''opacity'', PInt 1), (''fill'', PBool True),
                            (''fillColor'', PStr ''#0000ff''), (''fillOpacity'', PFloat 0.4)]
                else style)
               (Some (if layer_name = ''Untitled''
                      then ''Untitled_'' @ fst (random_string X (rng w))
                      else layer_name)))"
  using assms
  by (auto simp: add_geojson_def Let_def split: if_splits prod.splits sum.splits)

lemma add_geojson_dict:
  "fst (add_geojson X w self (PDict kvs) style layer_name) =
     Inr (add_layer self
            (GeoJSON (PDict kvs)
               (if style = PNone
                then PDict [(''stroke'', PBool True), (''color'', PStr ''#000000''),
                            (''weight'', PInt 2), (''opacity'', PInt 1), (''fill'', PBool True),
                            (''fillColor'', PStr ''#0000ff''), (''fillOpacity'', PFloat 0.4)]
                else style)
               (Some (if layer_name = ''Untitled''
                      then ''Untitled_'' @ fst (random_string X (rng w))
                      else layer_name))))"
  by (simp add: add_geojson_def Let_def split: prod.splits)

text \<open>
  Claim C3. A call of \<open>add_geojson\<close> that adds a layer gives it, when \<open>style\<close> is \<open>None\<close>, the
  fixed mapping \<open>{stroke: True, color: "#000000", weight: 2, opacity: 1, fill: True,
  fillColor: "#0000ff", fillOpacity: 0.4}\<close>, and otherwise exactly the \<open>style\<close> it was given,
  with no entry of the default merged in. A call on a \<open>dict\<close> always adds its layer.
\<close>

theorem add_geojson_style:
  "(fst (add_geojson X w self in_geojson style layer_name) = Inr self1 \<longrightarrow>
      (style = PNone \<longrightarrow>
         (\<exists>d nm. self1 = add_layer self
            (GeoJSON d
               (PDict [(''stroke'', PBool True), (''color'', PStr ''#000000''),
                       (''weight'', PInt 2), (''opacity'', PInt 1), (''fill'', PBool True),
                       (''fillColor'', PStr ''#0000ff''), (''fillOpacity'', PFloat 0.4)])
               nm))) \<and>
      (style \<noteq> PNone \<longrightarrow> (\<exists>d nm. self1 = add_layer self (GeoJSON d style nm)))) \<and>
   (\<exists>nm. fst (add_geojson X w self (PDict kvs) style layer_name) =
      Inr (add_layer self
             (GeoJSON (PDict kvs)
                (if style = PNone
                 then PDict [(''stroke'', PBool True), (''color'', PStr ''#000000''),
                             (''weight'', PInt 2), (''opacity'', PInt 1), (''fill'', PBool True),
                             (''fillColor'', PStr ''#0000ff''), (''fillOpacity'', PFloat 0.4)]
                 else style)
                nm)))"
proof -
  have "fst (add_geojson X w self in_geojson style layer_name) = Inr self1 \<Longrightarrow>
      (style = PNone \<longrightarrow>
         (\<exists>d nm. self1 = add_layer self
            (GeoJSON d
               (PDict [(''stroke'', PBool True), (''color'', PStr ''#000000''),
                       (''weight'', PInt 2), (''opacity'', PInt 1), (''fill'', PBool True),
                       (''fillColor'', PStr ''#0000ff''), (''fillOpacity'', PFloat 0.4)])
               nm))) \<and>
      (style \<noteq> PNone \<longrightarrow> (\<exists>d nm. self1 = add_layer self (GeoJSON d style nm)))"
    using add_geojson_success[of X w self in_geojson style layer_name self1]
    by (cases "style = PNone"; cases "layer_name = ''Untitled''") force+
  moreover have "\<exists>nm. fst (add_geojson X w self (PDict kvs) style layer_name) =
      Inr (add_layer self
             (GeoJSON (PDict kvs)
                (if style = PNone
                 then PDict [(''stroke'', PBool True), (''color'', PStr ''#000000''),
                             (''weight'', PInt 2), (''opacity'', PInt 1), (''fill'', PBool True),
                             (''fillColor'', PStr ''#0000ff''), (''fillOpacity'', PFloat 0.4)]
                 else style)
                nm))"
    by (rule exI[where x = "Some (if layer_name = ''Untitled''
                                  then ''Untitled_'' @ fst (random_string X (rng w))
                                  else layer_name)"])
       (rule add_geojson_dict)
  ultimately show ?thesis by blast
qed

text \<open>
  The theorem at the concrete world: without a style the layer has the default mapping,
  and with the style \<open>{color: "#ff0000"}\<close> it has that one entry and nothing else.
\<close>

theorem add_geojson_style_witness:
  "fst (add_geojson demo_ext demo_world demo_map demo_fc PNone ''countries'') =
     Inr (add_layer demo_map
            (GeoJSON demo_fc
               (PDict [(''stroke'', PBool True), (''color'', PStr ''#000000''),
                       (''weight'', PInt 2), (''opacity'', PInt 1), (''fill'', PBool True),
                       (''fillColor'', PStr ''#0000ff''), (''fillOpacity'', PFloat 0.4)])
               (Some ''countries''))) \<and>
   fst (add_geojson demo_ext demo_world demo_map demo_fc
          (PDict [(''color'', PStr ''#ff0000'')]) ''countries'') =
     Inr (add_layer demo_map
            (GeoJSON demo_fc (PDict [(''color'', PStr ''#ff0000'')]) (Some ''countries'')))"
proof -
  let ?r1 = "add_layer demo_map
            (GeoJSON demo_fc
               (PDict [(''stroke'', PBool True), (''color'', PStr ''#000000''),
                       (''weight'', PInt 2), (''opacity'', PInt 1), (''fill'', PBool True),
                       (''fillColor'', PStr ''#0000ff''), (''fillOpacity'', PFloat 0.4)])
               (Some ''countries''))"
  let ?r2 = "add_layer demo_map
            (GeoJSON demo_fc (PDict [(''color'', PStr ''#ff0000'')]) (Some ''countries''))"
  have a: "fst (add_geojson demo_ext demo_world demo_map demo_fc PNone ''countries'') = Inr ?r1"
    by (simp add: add_geojson_def demo_fc_def)
  have b: "fst (add_geojson demo_ext demo_world demo_map demo_fc
              (PDict [(''color'', PStr ''#ff0000'')]) ''countries'') = Inr ?r2"
    by (simp add: add_geojson_def demo_fc_def)
  from add_geojson_style[of demo_ext demo_world demo_map demo_fc PNone "''countries''"]
    add_geojson_style[of demo_ext demo_world demo_map demo_fc
      "PDict [(''color'', PStr ''#ff0000'')]" "''countries''"] a b
  show ?thesis by blast
qed

text \<open>
  Claim C8. A call of \<open>add_geojson\<close> that adds a layer names it, when \<open>layer_name\<close> is the
  sentinel \<open>Untitled\<close>, by the sentinel followed by an underscore and the string that
  \<open>random_string()\<close> returns, and otherwise by the \<open>layer_name\<close> it was given. A call on a
  \<open>dict\<close> always adds its layer.
\<close>

theorem add_geojson_layer_name:
  "(fst (add_geojson X w self in_geojson style layer_name) = Inr self1 \<longrightarrow>
      (layer_name = ''Untitled'' \<longrightarrow>
         (\<exists>d st. self1 = add_layer self
            (GeoJSON d st (Some (''Untitled'' @ ''_'' @ fst (random_string X (rng w))))))) \<and>
      (layer_name \<noteq> ''Untitled'' \<longrightarrow>
         (\<exists>d st. self1 = add_layer self (GeoJSON d st (Some layer_name))))) \<and>
   (\<exists>st. fst (add_geojson X w self (PDict kvs) style layer_name) =
      Inr (add_layer self
             (GeoJSON (PDict kvs) st
                (Some (if layer_name = ''Untitled''
                       then ''Untitled'' @ ''_'' @ fst (random_string X (rng w))
                       else layer_name)))))"
proof -
  have "fst (add_geojson X w self in_geojson style layer_name) = Inr self1 \<Longrightarrow>
      (layer_name = ''Untitled'' \<longrightarrow>
         (\<exists>d st. self1 = add_layer self
            (GeoJSON d st (Some (''Untitled'' @ ''_'' @ fst (random_string X (rng w))))))) \<and>
      (layer_name \<noteq> ''Untitled'' \<longrightarrow>
         (\<exists>d st. self1 = add_layer self (GeoJSON d st (Some layer_name))))"
    using add_geojson_success[of X w self in_geojson style layer_name self1]
    by (cases "style = PNone"; cases "layer_name = ''Untitled''") force+
  moreover have "\<exists>st. fst (add_geojson X w self (PDict kvs) style layer_name) =
      Inr (add_layer self
             (GeoJSON (PDict kvs) st
                (Some (if layer_name = ''Untitled''
                       then ''Untitled'' @ ''_'' @ fst (random_string X (rng w))
                       else layer_name))))"
    using add_geojson_dict[of X w self kvs style layer_name] by auto
  ultimately show ?thesis by blast
qed

text \<open>
  The theorem at the concrete world, where \<open>random_string()\<close> returns \<open>k3x9\<close>: the unnamed
  layer is called \<open>Untitled_k3x9\<close>, the layer named \<open>rivers\<close> keeps its name.
\<close>

theorem add_geojson_layer_name_witness:
  "fst (add_geojson demo_ext demo_world demo_map demo_fc PNone ''Untitled'') =
     Inr (add_layer demo_map
            (GeoJSON demo_fc
               (PDict [(''stroke'', PBool True), (''color'', PStr ''#000000''),
                       (''weight'', PInt 2), (''opacity'', PInt 1), (''fill'', PBool True),
                       (''fillColor'', PStr ''#0000ff''), (''fillOpacity'', PFloat 0.4)])
               (Some ''Untitled_k3x9''))) \<and>
   fst (add_geojson demo_ext demo_world demo_map demo_fc PNone ''rivers'') =
     Inr (add_layer demo_map
            (GeoJSON demo_fc
               (PDict [(''stroke'', PBool True), (''color'', PStr ''#000000''),
                       (''weight'', PInt 2), (''opacity'', PInt 1), (''fill'', PBool True),
                       (''fillColor'', PStr ''#0000ff''), (''fillOpacity'', PFloat 0.4)])
               (Some ''rivers'')))"
proof -
  let ?st = "PDict [(''stroke'', PBool True), (''color'', PStr ''#000000''),
                       (''weight'', PInt 2), (''opacity'', PInt 1), (''fill'', PBool True),
                       (''fillColor'', PStr ''#0000ff''), (''fillOpacity'', PFloat 0.4)]"
  have a: "fst (add_geojson demo_ext demo_world demo_map demo_fc PNone ''Untitled'') =
             Inr (add_layer demo_map (GeoJSON demo_fc ?st (Some ''Untitled_k3x9'')))"
    by (simp add: add_geojson_def demo_fc_def demo_ext_def demo_world_def)
  have b: "fst (add_geojson demo_ext demo_world demo_map demo_fc PNone ''rivers'') =
             Inr (add_layer demo_map (GeoJSON demo_fc ?st (Some ''rivers'')))"
    by (simp add: add_geojson_def demo_fc_def)
  from add_geojson_layer_name[of demo_ext demo_world demo_map demo_fc PNone "''Untitled''"]
    add_geojson_layer_name[of demo_ext demo_world demo_map demo_fc PNone "''rivers''"] a b
  show ?thesis by blast
qed














lemma recognised_iff:
  "isinstance ob [EE_Image, EE_ImageCollection, EE_Feature, EE_FeatureCollection, EE_Geometry]
     \<longleftrightarrow> type_of ob \<noteq> None"
proof (cases "type_of ob")
  case None
  then show ?thesis by (simp add: isinstance_def)
next
  case (Some t)
  then show ?thesis by (cases t) (simp_all add: isinstance_def)
qed

lemma recognised_set_iff:
  "type_of ob \<in> {Some EE_Image, Some EE_ImageCollection, Some EE_Feature,
                  Some EE_FeatureCollection, Some EE_Geometry} \<longleftrightarrow> type_of ob \<noteq> None"
proof (cases "type_of ob")
  case None
  then show ?thesis by simp
next
  case (Some t)
  then show ?thesis by (cases t) simp_all
qed

lemma is_collection_iff:
  "isinstance ob [EE_ImageCollection] \<longleftrightarrow> type_of ob = Some EE_ImageCollection"
  by (simp add: isinstance_def split: option.splits)

lemma ee_tile_layer_eq:
  "ee_tile_layer X w ob vis nm shown opac =
     (if type_of ob = None
      then (Inl (AttributeError
                  ''ee_object must be an Earth Engine Image, Feature, or Collection.''), w)
      else (TileLayer_init
              (url_format (tile_fetcher
                 (getMapId X
                    (if type_of ob = Some EE_ImageCollection then mosaic ob else ob)
                    (dicts w (case vis of None \<Rightarrow> ee_tile_layer_default | Some r \<Rightarrow> r)))))
              nm opac shown ''Google Earth Engine'', w))"
  by (simp add: ee_tile_layer_def recognised_iff is_collection_iff Let_def)

lemma TileLayer_init_valid:
  "nm \<noteq> None \<Longrightarrow> 0 \<le> opac \<Longrightarrow> opac \<le> 1 \<Longrightarrow>
     TileLayer_init u nm opac vis attr = Inr (TileLayer u nm opac vis attr)"
  by (auto simp: TileLayer_init_def split: option.splits)

lemma TileLayer_init_invalid:
  "nm = None \<or> opac < 0 \<or> 1 < opac \<Longrightarrow> \<exists>t. TileLayer_init u nm opac vis attr = Inl (TraitError t)"
  by (auto simp: TileLayer_init_def split: option.splits)

lemma TileLayer_init_no_AttributeError:
  "TileLayer_init u nm opac vis attr \<noteq> Inl (AttributeError msg)"
  by (auto simp: TileLayer_init_def split: option.splits)

text \<open>
  Claim C6, as amended. \<open>ee_tile_layer\<close> raises \<open>AttributeError\<close> exactly when the object is
  of none of the classes \<open>ee.Image\<close>, \<open>ee.ImageCollection\<close>, \<open>ee.Feature\<close>,
  \<open>ee.FeatureCollection\<close> and \<open>ee.Geometry\<close>. For an object of one of them, a name that is a
  string and an opacity between 0 and 1, it returns a tile layer whose URL is the
  \<open>url_format\<close> of the tile fetcher the service returned, with the name, opacity and
  visibility it was given and the attribution \<open>Google Earth Engine\<close>. For an object of one
  of them and the name \<open>None\<close> or an opacity outside that range, the layer's constructor
  raises \<open>TraitError\<close>. The service is taken to answer every request.
\<close>

theorem ee_tile_layer_unsupported:
  "((\<exists>msg. fst (ee_tile_layer X w ob vis nm shown opac) = Inl (AttributeError msg))
      \<longleftrightarrow> type_of ob \<notin> {Some EE_Image, Some EE_ImageCollection, Some EE_Feature,
                           Some EE_FeatureCollection, Some EE_Geometry}) \<and>
   (type_of ob \<in> {Some EE_Image, Some EE_ImageCollection, Some EE_Feature,
                  Some EE_FeatureCollection, Some EE_Geometry} \<and>
    nm \<noteq> None \<and> 0 \<le> opac \<and> opac \<le> 1 \<longrightarrow>
      fst (ee_tile_layer X w ob vis nm shown opac) =
        Inr (TileLayer
               (url_format (tile_fetcher
                  (getMapId X
                     (if type_of ob = Some EE_ImageCollection then mosaic ob else ob)
                     (dicts w (case vis of None \<Rightarrow> ee_tile_layer_default | Some r \<Rightarrow> r)))))
               nm opac shown ''Google Earth Engine'') \<and>
      attribution_of (projr (fst (ee_tile_layer X w ob vis nm shown opac)))
        = ''Google Earth Engine'') \<and>
   (type_of ob \<in> {Some EE_Image, Some EE_ImageCollection, Some EE_Feature,
                  Some EE_FeatureCollection, Some EE_Geometry} \<and>
    (nm = None \<or> opac < 0 \<or> 1 < opac) \<longrightarrow>
      (\<exists>t. fst (ee_tile_layer X w ob vis nm shown opac) = Inl (TraitError t)))"
proof (intro conjI impI)
  show "(\<exists>msg. fst (ee_tile_layer X w ob vis nm shown opac) = Inl (AttributeError msg))
      \<longleftrightarrow> type_of ob \<notin> {Some EE_Image, Some EE_ImageCollection, Some EE_Feature,
                           Some EE_FeatureCollection, Some EE_Geometry}"
    unfolding recognised_set_iff
    by (simp add: ee_tile_layer_eq TileLayer_init_no_AttributeError)
next
  assume a: "type_of ob \<in> {Some EE_Image, Some EE_ImageCollection, Some EE_Feature,
                  Some EE_FeatureCollection, Some EE_Geometry} \<and>
    nm \<noteq> None \<and> 0 \<le> opac \<and> opac \<le> 1"
  then have r: "type_of ob \<noteq> None" using recognised_set_iff by blast
  from a have v: "nm \<noteq> None" "0 \<le> opac" "opac \<le> 1" by blast+
  show e: "fst (ee_tile_layer X w ob vis nm shown opac) =
        Inr (TileLayer
               (url_format (tile_fetcher
                  (getMapId X
                     (if type_of ob = Some EE_ImageCollection then mosaic ob else ob)
                     (dicts w (case vis of None \<Rightarrow> ee_tile_layer_default | Some r \<Rightarrow> r)))))
               nm opac shown ''Google Earth Engine'')"
    using r by (simp add: ee_tile_layer_eq TileLayer_init_valid[OF v])
  show "attribution_of (projr (fst (ee_tile_layer X w ob vis nm shown opac)))
        = ''Google Earth Engine''"
    unfolding e by simp
next
  assume a: "type_of ob \<in> {Some EE_Image, Some EE_ImageCollection, Some EE_Feature,
                  Some EE_FeatureCollection, Some EE_Geometry} \<and>
    (nm = None \<or> opac < 0 \<or> 1 < opac)"
  then have r: "type_of ob \<noteq> None" using recognised_set_iff by blast
  from a have i: "nm = None \<or> opac < 0 \<or> 1 < opac" by blast
  show "\<exists>t. fst (ee_tile_layer X w ob vis nm shown opac) = Inl (TraitError t)"
    using r TileLayer_init_invalid[OF i] by (simp add: ee_tile_layer_eq)
qed

text \<open>
  The theorem at the concrete world: a feature is rendered, a plain string is refused.
\<close>

theorem ee_tile_layer_unsupported_witness:
  "fst (ee_tile_layer demo_ext demo_world (Feature ''roads/12'') None (Some ''Layer untitled'')
          True 1)
     = Inr (TileLayer ''tiles/{z}/{x}/{y}'' (Some ''Layer untitled'') 1 True
              ''Google Earth Engine'') \<and>
   fst (ee_tile_layer demo_ext demo_world (NotEE (PStr ''roads'')) None (Some ''Layer untitled'')
          True 1)
     = Inl (AttributeError ''ee_object must be an Earth Engine Image, Feature, or Collection.'')"
proof -
  have t: "type_of (Feature ''roads/12'') \<in> {Some EE_Image, Some EE_ImageCollection,
             Some EE_Feature, Some EE_FeatureCollection, Some EE_Geometry} \<and>
           Some ''Layer untitled'' \<noteq> None \<and> (0::real) \<le> 1 \<and> (1::real) \<le> 1" by simp
  have a: "fst (ee_tile_layer demo_ext demo_world (Feature ''roads/12'') None
                  (Some ''Layer untitled'') True 1)
     = Inr (TileLayer ''tiles/{z}/{x}/{y}'' (Some ''Layer untitled'') 1 True
              ''Google Earth Engine'')"
    using ee_tile_layer_unsupported[of demo_ext demo_world "Feature ''roads/12''" None
        "Some ''Layer untitled''" True 1] t
    by (simp add: demo_ext_def demo_map_id_def)
  have b: "fst (ee_tile_layer demo_ext demo_world (NotEE (PStr ''roads'')) None
                  (Some ''Layer untitled'') True 1)
     = Inl (AttributeError ''ee_object must be an Earth Engine Image, Feature, or Collection.'')"
    by (simp add: ee_tile_layer_eq)
  show ?thesis using a b by blast
qed

text \<open>
  Claim C6 as stated does not hold for every recognized object: with the name \<open>None\<close>,
  which is what \<open>add_ee_layer\<close> passes when it is given no name, or with the opacity 2, the
  constructor of the layer raises \<open>TraitError\<close> and no layer is returned.
\<close>

theorem ee_tile_layer_trait_error_counterexample:
  "type_of (Feature ''roads/12'') = Some EE_Feature \<and>
   fst (ee_tile_layer demo_ext demo_world (Feature ''roads/12'') None None True 1)
     = Inl (TraitError ''name'') \<and>
   fst (ee_tile_layer demo_ext demo_world (Feature ''roads/12'') None (Some ''roads'') True 2)
     = Inl (TraitError ''opacity'') \<and>
   fst (add_ee_layer demo_ext demo_world demo_map (Feature ''roads/12'') None None True 1)
     = Inl (TraitError ''name'')"
  by (simp add: ee_tile_layer_eq add_ee_layer_def TileLayer_init_def)

text \<open>
  Claim C10. For an \<open>ee.ImageCollection\<close> the map id is requested for its mosaic, which is
  another object than the collection; for an object of the four other classes it is
  requested for the object itself. The layer is built from the URL of that request, so
  whenever a layer is returned, its URL is the one the service gave for that object. This
  holds for every service, so the URL of the layer tells which object the request was
  made for.
\<close>

theorem ee_tile_layer_mosaic:
  "(type_of ob = Some EE_ImageCollection \<longrightarrow>
      mosaic ob \<noteq> ob \<and>
      fst (ee_tile_layer X w ob vis nm shown opac) =
        TileLayer_init
          (url_format (tile_fetcher
             (getMapId X (mosaic ob)
                (dicts w (case vis of None \<Rightarrow> ee_tile_layer_default | Some r \<Rightarrow> r)))))
          nm opac shown ''Google Earth Engine'' \<and>
      (nm \<noteq> None \<and> 0 \<le> opac \<and> opac \<le> 1 \<longrightarrow>
         fst (ee_tile_layer X w ob vis nm shown opac) =
           Inr (TileLayer
                  (url_format (tile_fetcher
                     (getMapId X (mosaic ob)
                        (dicts w (case vis of None \<Rightarrow> ee_tile_layer_default | Some r \<Rightarrow> r)))))
                  nm opac shown ''Google Earth Engine''))) \<and>
   (type_of ob \<in> {Some EE_Image, Some EE_Feature, Some EE_FeatureCollection, Some EE_Geometry}
      \<longrightarrow>
      fst (ee_tile_layer X w ob vis nm shown opac) =
        TileLayer_init
          (url_format (tile_fetcher
             (getMapId X ob
                (dicts w (case vis of None \<Rightarrow> ee_tile_layer_default | Some r \<Rightarrow> r)))))
          nm opac shown ''Google Earth Engine'' \<and>
      (nm \<noteq> None \<and> 0 \<le> opac \<and> opac \<le> 1 \<longrightarrow>
         fst (ee_tile_layer X w ob vis nm shown opac) =
           Inr (TileLayer
                  (url_format (tile_fetcher
                     (getMapId X ob
                        (dicts w (case vis of None \<Rightarrow> ee_tile_layer_default | Some r \<Rightarrow> r)))))
                  nm opac shown ''Google Earth Engine'')))"
proof -
  have "type_of ob = Some EE_ImageCollection \<Longrightarrow> mosaic ob \<noteq> ob"
    by (cases ob) (simp_all add: mosaic_def)
  then show ?thesis by (auto simp: ee_tile_layer_eq TileLayer_init_valid)
qed

text \<open>
  The theorem at the concrete world, whose service answers a mosaic with another URL: the
  collection gets the mosaic's tiles, the image its own.
\<close>

theorem ee_tile_layer_mosaic_witness:
  "fst (ee_tile_layer demo_ext demo_world (ImageCollection ''COPERNICUS/S2'') None
          (Some ''s2'') True 1)
     = Inr (TileLayer ''tiles/mosaic/{z}/{x}/{y}'' (Some ''s2'') 1 True ''Google Earth Engine'') \<and>
   fst (ee_tile_layer demo_ext demo_world (Image ''SRTM'') None (Some ''dem'') True 1)
     = Inr (TileLayer ''tiles/{z}/{x}/{y}'' (Some ''dem'') 1 True ''Google Earth Engine'')"
proof -
  have a: "type_of (ImageCollection ''COPERNICUS/S2'') = Some EE_ImageCollection" by simp
  have b: "type_of (Image ''SRTM'') \<in> {Some EE_Image, Some EE_Feature,
             Some EE_FeatureCollection, Some EE_Geometry}" by simp
  show ?thesis
    using ee_tile_layer_mosaic[of "ImageCollection ''COPERNICUS/S2''" demo_ext demo_world None
        "Some ''s2''" True 1] a
      ee_tile_layer_mosaic[of "Image ''SRTM''" demo_ext demo_world None "Some ''dem''" True 1] b
    by (simp add: demo_ext_def demo_map_id_def mosaic_def TileLayer_init_def)
qed

lemma ee_tile_layer_world: "snd (ee_tile_layer X w ob vis nm shown opac) = w"
  by (simp add: ee_tile_layer_eq)

lemma add_ee_layer_world: "snd (add_ee_layer X w self ob vis nm shown opac) = w"
proof -
  obtain r w1 where e: "ee_tile_layer X w ob
      (Some (case vis of None \<Rightarrow> add_ee_layer_default | Some r \<Rightarrow> r)) nm shown opac = (r, w1)"
    by (cases "ee_tile_layer X w ob
      (Some (case vis of None \<Rightarrow> add_ee_layer_default | Some r \<Rightarrow> r)) nm shown opac") auto
  have "w1 = w" using ee_tile_layer_world[of X w ob _ nm shown opac] e by (metis snd_conv)
  then show ?thesis using e by (cases r) (simp_all add: add_ee_layer_def)
qed

lemma run_call_world: "fst (run_call X (w, m) c) = w"
proof (cases c)
  case (Call_add_ee_layer ob vis nm shown opac)
  then show ?thesis
    using add_ee_layer_world[of X w m ob vis nm shown opac]
    by (cases "add_ee_layer X w m ob vis nm shown opac") (auto split: sum.splits)
next
  case (Call_ee_tile_layer ob vis nm shown opac)
  then show ?thesis
    using ee_tile_layer_world[of X w ob vis nm shown opac]
    by (cases "ee_tile_layer X w ob vis nm shown opac") auto
qed

lemma run_calls_world: "fst (run_calls X (w, m) cs) = w"
proof (induction cs arbitrary: m)
  case Nil
  then show ?case by simp
next
  case (Cons c cs)
  obtain m1 where "run_call X (w, m) c = (w, m1)"
    using run_call_world[of X w m c] by (cases "run_call X (w, m) c") auto
  then show ?case using Cons.IH by simp
qed

text \<open>
  Claim C9. Neither \<open>ee_tile_layer\<close> nor \<open>add_ee_layer\<close> changes the world: every \<open>dict\<close>,
  the two shared defaults included, holds after the call what it held before, whether the
  call returns or raises. So after any session of calls to the two methods the defaults
  are what they were, and a call returns what it would have returned before the session:
  the parameters the service sees are those of the call's own argument. The service reads
  the parameters it is handed; it does not write them.
\<close>

theorem vis_params_never_mutated:
  "snd (ee_tile_layer X w ob vis nm shown opac) = w \<and>
   snd (add_ee_layer X w self ob vis nm shown opac) = w \<and>
   dicts (fst (run_calls X (w, m) cs)) = dicts w \<and>
   fst (ee_tile_layer X (fst (run_calls X (w, m) cs)) ob vis nm shown opac)
     = fst (ee_tile_layer X w ob vis nm shown opac) \<and>
   fst (add_ee_layer X (fst (run_calls X (w, m) cs)) self ob vis nm shown opac)
     = fst (add_ee_layer X w self ob vis nm shown opac)"
  by (simp add: ee_tile_layer_world add_ee_layer_world run_calls_world)


text \<open>
  The theorem at the concrete world: after two calls that leave \<open>vis_params\<close> out, both
  default mappings are still empty.
\<close>

theorem vis_params_never_mutated_witness:
  "dicts (fst (run_calls demo_ext (demo_world, demo_map)
                 [Call_add_ee_layer (Image ''SRTM'') None None True 1,
                  Call_ee_tile_layer (Feature ''roads/12'') None (Some ''roads'') True 1]))
     ee_tile_layer_default = PDict [] \<and>
   dicts (fst (run_calls demo_ext (demo_world, demo_map)
                 [Call_add_ee_layer (Image ''SRTM'') None None True 1,
                  Call_ee_tile_layer (Feature ''roads/12'') None (Some ''roads'') True 1]))
     add_ee_layer_default = PDict []"
  using vis_params_never_mutated[of demo_ext demo_world "Image ''SRTM''" None None True 1
      demo_map demo_map
      "[Call_add_ee_layer (Image ''SRTM'') None None True 1,
        Call_ee_tile_layer (Feature ''roads/12'') None (Some ''roads'') True 1]"]
  by (simp add: demo_world_def)

end
